theory Spec2Isabelle
  imports Complex_Main "HOL-Library.AList" "HOL-Library.Char_ord" "HOL-Library.List_Lexorder"
begin

section \<open>Data model\<close>

text \<open>
  The TypeScript sources compute with JavaScript numbers. They are modelled as exact
  rationals: rounding of IEEE doubles and the infinities are outside the model. The one
  number that the sources obtain from \<open>parseFloat\<close>, the tendered amount, can be \<open>NaN\<close>
  and has a type of its own. A string is a list of characters with a code below 256 (the
  UTF-16 code units of the Latin-1 range); other characters are outside the model.
  An optional field (\<open>notes?: string\<close>) is an \<open>option\<close>; a document collection of the
  store is a map from document ids to documents.
\<close>

type_synonym number = rat

datatype JsNumber = NaN | Num number

record SelectedModifier =
  optionName :: string
  optionPrice :: number

record CartItem =
  cartItemId :: string
  ci_id :: string
  ci_name :: string
  basePrice :: number
  ci_quantity :: number
  ci_selectedModifiers :: "SelectedModifier list"
  ci_notes :: "string option"

record OrderItem =
  oi_name :: string
  menuItemId :: string
  price :: number
  oi_quantity :: number
  oi_selectedModifiers :: "SelectedModifier list"
  isCompleted :: bool
  oi_notes :: "string option"
  inventoryDeducted :: "bool option"

record Tax =
  tax_id :: string
  tax_name :: string
  tax_rate :: number

record AppliedTax =
  at_name :: string
  at_rate :: number
  amount :: number

record AppliedDiscount =
  discount_amount :: number

record RecipeItem =
  ingredientId :: string
  ri_quantity :: number

record MenuItem =
  mi_id :: string
  mi_name :: string
  mi_price :: number
  recipe :: "RecipeItem list option"
  hasModifierGroups :: bool

datatype OrderStatus = Pending | New | InProgress | Ready | Completed

datatype OrderType = DineIn | Takeaway

datatype PaymentMethod = Cash | Card | Other

datatype TableStatus = Available | Seated | Ordered | Attention | NeedsCleaning

record Order =
  items :: "OrderItem list"
  plateNumber :: string
  o_subtotal :: number
  o_taxes :: "AppliedTax list"
  o_taxAmount :: number
  tip :: number
  platformFee :: number
  o_total :: number
  status :: OrderStatus
  createdAt :: nat
  o_userId :: string
  o_notes :: string
  orderType :: OrderType
  o_paymentMethod :: "PaymentMethod option"
  appliedDiscounts :: "AppliedDiscount list"

record FloorPlanTable =
  tbl_id :: string
  label :: string
  tbl_status :: "TableStatus option"

text \<open>
  The part of the Firestore database the core reads and writes: the \<open>orders\<close>
  collection, the \<open>stock\<close> field of the \<open>ingredients\<close> collection and the tables of
  the tenant's floor-plan document (\<open>None\<close> when the document does not exist).
\<close>

record Store =
  orders :: "string \<rightharpoonup> Order"
  stock :: "string \<rightharpoonup> number"
  floorPlan :: "FloorPlanTable list option"

section \<open>JavaScript helpers\<close>

text \<open>\<open>Array.prototype.findIndex\<close>: the first index whose element satisfies the
  predicate, \<open>None\<close> for the source's \<open>-1\<close>.\<close>

fun findIndex :: "('a \<Rightarrow> bool) \<Rightarrow> 'a list \<Rightarrow> nat option" where
  "findIndex P [] = None"
| "findIndex P (x # xs) =
     (if P x then Some 0 else map_option Suc (findIndex P xs))"

text \<open>\<open>xs.join(sep)\<close> on a list of strings.\<close>

fun join :: "string \<Rightarrow> string list \<Rightarrow> string" where
  "join sep [] = []"
| "join sep [x] = x"
| "join sep (x # y # ys) = x @ sep @ join sep (y # ys)"

text \<open>The characters below 256 that the regular expression \<open>\s\<close> matches and that
  \<open>trim\<close> removes: tab, line feed, vertical tab, form feed, carriage return, space and
  the no-break space.\<close>

definition isSpace :: "char \<Rightarrow> bool" where
  "isSpace c \<longleftrightarrow>
     c \<in> set [CHR '' '', CHR 0x09, CHR 0x0A, CHR 0x0B, CHR 0x0C, CHR 0x0D, CHR 0xA0]"

definition stripSpaces :: "string \<Rightarrow> string" where
  "stripSpaces s = filter (\<lambda>c. \<not> isSpace c) s"

definition trim :: "string \<Rightarrow> string" where
  "trim s = rev (dropWhile isSpace (rev (dropWhile isSpace s)))"

text \<open>
  \<open>String.prototype.toUpperCase\<close> on the characters below 256: the letters a to z, and
  the letters from 0xE0 to 0xFE other than the division sign 0xF7, go to the character
  32 below; the sharp s 0xDF goes to the two letters SS; every other character stays.
  The upper-case forms of the micro sign 0xB5 and of the y with diaeresis 0xFF lie
  outside the range and are written as the characters themselves: no character of the
  range has them as its upper-case form, so two strings have equal upper-case forms here
  exactly when they have in the source.
\<close>

definition lowerLetters :: string where
  "lowerLetters =
     ''abcdefghijklmnopqrstuvwxyz'' @
     [CHR 0xE0, CHR 0xE1, CHR 0xE2, CHR 0xE3, CHR 0xE4, CHR 0xE5, CHR 0xE6, CHR 0xE7,
      CHR 0xE8, CHR 0xE9, CHR 0xEA, CHR 0xEB, CHR 0xEC, CHR 0xED, CHR 0xEE, CHR 0xEF,
      CHR 0xF0, CHR 0xF1, CHR 0xF2, CHR 0xF3, CHR 0xF4, CHR 0xF5, CHR 0xF6,
      CHR 0xF8, CHR 0xF9, CHR 0xFA, CHR 0xFB, CHR 0xFC, CHR 0xFD, CHR 0xFE]"

definition upperLetters :: string where
  "upperLetters =
     ''ABCDEFGHIJKLMNOPQRSTUVWXYZ'' @
     [CHR 0xC0, CHR 0xC1, CHR 0xC2, CHR 0xC3, CHR 0xC4, CHR 0xC5, CHR 0xC6, CHR 0xC7,
      CHR 0xC8, CHR 0xC9, CHR 0xCA, CHR 0xCB, CHR 0xCC, CHR 0xCD, CHR 0xCE, CHR 0xCF,
      CHR 0xD0, CHR 0xD1, CHR 0xD2, CHR 0xD3, CHR 0xD4, CHR 0xD5, CHR 0xD6,
      CHR 0xD8, CHR 0xD9, CHR 0xDA, CHR 0xDB, CHR 0xDC, CHR 0xDD, CHR 0xDE]"

definition upperChar :: "char \<Rightarrow> string" where
  "upperChar c =
     (if c = CHR 0xDF then ''SS''
      else case map_of (zip lowerLetters upperLetters) c of
             Some u \<Rightarrow> [u]
           | None \<Rightarrow> [c])"

definition toUpperCase :: "string \<Rightarrow> string" where
  "toUpperCase s = concat (map upperChar s)"

text \<open>The sum of the modifier prices of a line:
  \<open>selectedModifiers.reduce((p, c) => p + c.optionPrice, 0)\<close>.\<close>

definition modifiersPrice :: "SelectedModifier list \<Rightarrow> number" where
  "modifiersPrice ms = foldl (\<lambda>p c. p + optionPrice c) 0 ms"

section \<open>Pricing engine (POSModal and RapidOrderModal)\<close>

definition subtotal :: "CartItem list \<Rightarrow> number" where
  "subtotal cart =
     foldl (\<lambda>sum item. sum + (basePrice item + modifiersPrice (ci_selectedModifiers item))
                                * ci_quantity item) 0 cart"

text \<open>POSModal: the applied tax ids of the profile are mapped to the tax records with
  that id, and the ids with no record are dropped (\<open>filter(Boolean)\<close>).\<close>

definition taxAt :: "number \<Rightarrow> Tax \<Rightarrow> AppliedTax" where
  "taxAt sub t = \<lparr>at_name = tax_name t, at_rate = tax_rate t, amount = sub * (tax_rate t / 100)\<rparr>"

definition appliedTaxes :: "string list \<Rightarrow> Tax list \<Rightarrow> number \<Rightarrow> AppliedTax list" where
  "appliedTaxes appliedTaxIds taxes sub =
     map (taxAt sub)
       (List.map_filter (\<lambda>taxId. find (\<lambda>t. tax_id t = taxId) taxes) appliedTaxIds)"

text \<open>RapidOrderModal: the tax records are filtered by membership of their id in the
  applied tax ids of the profile.\<close>

definition rapid_appliedTaxes :: "string list \<Rightarrow> Tax list \<Rightarrow> number \<Rightarrow> AppliedTax list" where
  "rapid_appliedTaxes appliedTaxIds taxes sub =
     map (taxAt sub) (filter (\<lambda>t. tax_id t \<in> set appliedTaxIds) taxes)"

definition taxAmount :: "AppliedTax list \<Rightarrow> number" where
  "taxAmount ts = foldl (\<lambda>sum t. sum + amount t) 0 ts"

definition total :: "number \<Rightarrow> number \<Rightarrow> number" where
  "total sub tax = sub + tax"

text \<open>
  \<open>tenderedAmount\<close> is a number or the empty string; the empty string is \<open>None\<close>.
  The number is what \<open>parseFloat\<close> made of the numpad input, and \<open>NaN\<close> when the input
  has no leading number (a decimal point typed first). \<open>NaN - total\<close> is \<open>NaN\<close>.
\<close>

definition changeDue :: "JsNumber option \<Rightarrow> number \<Rightarrow> JsNumber" where
  "changeDue tenderedAmount tot =
     (case tenderedAmount of
        Some (Num t) \<Rightarrow> Num (t - tot)
      | Some NaN \<Rightarrow> NaN
      | None \<Rightarrow> Num 0)"

text \<open>The value shown in the change-due row:
  \<open>changeDue > 0 ? changeDue.toFixed(3) : '0.000'\<close>, as a number; \<open>NaN > 0\<close> is
  false.\<close>

definition changeDueShown :: "JsNumber \<Rightarrow> number" where
  "changeDueShown cd = (case cd of Num c \<Rightarrow> if c > 0 then c else 0 | NaN \<Rightarrow> 0)"

section \<open>Cart composer\<close>

definition handleAddToCart :: "CartItem \<Rightarrow> CartItem list \<Rightarrow> CartItem list" where
  "handleAddToCart item prevCart =
     (case findIndex (\<lambda>cartItem. cartItemId cartItem = cartItemId item
                                   \<and> ci_notes cartItem = ci_notes item) prevCart of
        Some i \<Rightarrow> prevCart[i := (prevCart ! i)\<lparr>ci_quantity := ci_quantity (prevCart ! i)
                                                               + ci_quantity item\<rparr>]
      | None \<Rightarrow> prevCart @ [item])"

text \<open>The decimal digits of a number, as a template literal renders \<open>Date.now()\<close>.\<close>

fun showNat :: "nat \<Rightarrow> string" where
  "showNat n =
     (if n < 10 then [''0123456789'' ! n]
      else showNat (n div 10) @ [''0123456789'' ! (n mod 10)])"

declare showNat.simps [simp del]

text \<open>
  The props and the state of the POSModal component. An absent or empty
  \<open>tableNumber\<close> is the empty string and an absent \<open>orderIds\<close> the empty list (the
  source only tests them for truthiness and for \<open>length > 0\<close>); \<open>appliedTaxIds\<close> is
  \<open>profile?.appliedTaxIds || []\<close>.
\<close>

record POSModal =
  pos_type :: OrderType
  tableNumber :: string
  orderIds :: "string list"
  userId :: string
  allItems :: "MenuItem list"
  appliedTaxIds :: "string list"
  cart :: "CartItem list"
  pos_identifier :: string
  taxes :: "Tax list"
  paymentMethod :: PaymentMethod
  tenderedAmount :: "JsNumber option"
  orderNotes :: string
  loading :: bool

text \<open>POSModal.handleSelectItem at time \<open>now\<close> (the value of \<open>Date.now()\<close>): an item
  with modifier groups opens the detail dialog and leaves the cart as it is.\<close>

definition handleSelectItem :: "nat \<Rightarrow> MenuItem \<Rightarrow> CartItem list \<Rightarrow> CartItem list" where
  "handleSelectItem now item prevCart =
     (if hasModifierGroups item then prevCart
      else handleAddToCart
             \<lparr>cartItemId = mi_id item @ ''-'' @ showNat now, ci_id = mi_id item,
              ci_name = mi_name item, basePrice = mi_price item, ci_quantity = 1,
              ci_selectedModifiers = [], ci_notes = None\<rparr> prevCart)"

text \<open>RapidOrderModal.handleSelectItem: the cart item id is the menu item id.\<close>

definition rapid_handleSelectItem :: "MenuItem \<Rightarrow> CartItem list \<Rightarrow> CartItem list" where
  "rapid_handleSelectItem item prevCart =
     (if hasModifierGroups item then prevCart
      else handleAddToCart
             \<lparr>cartItemId = mi_id item, ci_id = mi_id item,
              ci_name = mi_name item, basePrice = mi_price item, ci_quantity = 1,
              ci_selectedModifiers = [], ci_notes = None\<rparr> prevCart)"

subsection \<open>Re-hydration of the cart from the orders of a table (POSModal)\<close>

definition modifiersString :: "SelectedModifier list \<Rightarrow> string" where
  "modifiersString ms = join ''-'' (sort (map (\<lambda>m. stripSpaces (optionName m)) ms))"

text \<open>\<open>allItems.find(mi => mi.id === item.menuItemId)?.price || item.price\<close>: the price of
  the live menu item, and the persisted price when the menu has no such item or its
  price is 0.\<close>

definition rehydratedPrice :: "MenuItem list \<Rightarrow> OrderItem \<Rightarrow> number" where
  "rehydratedPrice menu item =
     (case find (\<lambda>mi. mi_id mi = menuItemId item) menu of
        Some mi \<Rightarrow> if mi_price mi \<noteq> 0 then mi_price mi else price item
      | None \<Rightarrow> price item)"

definition rehydrateItem :: "MenuItem list \<Rightarrow> nat \<Rightarrow> CartItem list \<Rightarrow> OrderItem \<Rightarrow> CartItem list" where
  "rehydrateItem menu now combinedCart item =
     (let cid = menuItemId item @ ''-'' @ modifiersString (oi_selectedModifiers item)
      in case findIndex (\<lambda>ci. cartItemId ci = cid \<and> ci_notes ci = oi_notes item) combinedCart of
           Some i \<Rightarrow> combinedCart[i := (combinedCart ! i)\<lparr>ci_quantity :=
                        ci_quantity (combinedCart ! i) + oi_quantity item\<rparr>]
         | None \<Rightarrow> combinedCart @
                     [\<lparr>cartItemId = cid @ ''-'' @ showNat now, ci_id = menuItemId item,
                       ci_name = oi_name item, basePrice = rehydratedPrice menu item,
                       ci_quantity = oi_quantity item,
                       ci_selectedModifiers = oi_selectedModifiers item,
                       ci_notes = oi_notes item\<rparr>])"

text \<open>The snapshot callback of the orders query: the new value of the cart, with
  \<open>Date.now()\<close> taken as one value \<open>now\<close> for the whole callback. (The callback also
  sets the order notes, which no write of an existing order uses.)\<close>

definition rehydrate :: "MenuItem list \<Rightarrow> nat \<Rightarrow> Order list \<Rightarrow> CartItem list" where
  "rehydrate menu now fetchedOrders =
     foldl (\<lambda>combinedCart order. foldl (rehydrateItem menu now) combinedCart (items order))
       [] fetchedOrders"

text \<open>The documents of the query \<open>where('__name__', 'in', orderIds)\<close>: the existing
  orders among \<open>orderIds\<close>, in ascending order of their ids.\<close>

definition queryOrders :: "Store \<Rightarrow> string list \<Rightarrow> Order list" where
  "queryOrders st ids = List.map_filter (orders st) (sort (remdups ids))"

text \<open>The effect of POSModal that sets the cart from the orders of \<open>orderIds\<close>; it
  runs when the dialog opens on a table with orders and whenever these orders change.\<close>

definition rehydrationEffect :: "POSModal \<Rightarrow> nat \<Rightarrow> Store \<Rightarrow> POSModal" where
  "rehydrationEffect p now st =
     (if orderIds p \<noteq> [] then
        p\<lparr>cart := rehydrate (allItems p) now (queryOrders st (orderIds p))\<rparr>
      else p)"

section \<open>Writes and batches\<close>

text \<open>
  A write of a Firestore batch. \<open>update\<close> fails on a document that does not exist,
  \<open>set\<close> creates it; a batch commits all its writes or none. The handlers catch a
  failed commit and leave the store as it was; failures of the network are not
  modelled.
\<close>

datatype Write =
    UpdateOrder string "Order \<Rightarrow> Order"
  | SetOrder string Order
  | IncrementStock string number
  | UpdateTables "FloorPlanTable list"

fun applyWrite :: "Write \<Rightarrow> Store \<Rightarrow> Store option" where
  "applyWrite (UpdateOrder k f) st =
     (case orders st k of None \<Rightarrow> None
      | Some ord \<Rightarrow> Some (st\<lparr>orders := (orders st)(k \<mapsto> f ord)\<rparr>))"
| "applyWrite (SetOrder k ord) st = Some (st\<lparr>orders := (orders st)(k \<mapsto> ord)\<rparr>)"
| "applyWrite (IncrementStock k d) st =
     (case stock st k of None \<Rightarrow> None
      | Some s \<Rightarrow> Some (st\<lparr>stock := (stock st)(k \<mapsto> s + d)\<rparr>))"
| "applyWrite (UpdateTables ts) st =
     (case floorPlan st of None \<Rightarrow> None | Some _ \<Rightarrow> Some (st\<lparr>floorPlan := Some ts\<rparr>))"

fun applyWrites :: "Write list \<Rightarrow> Store \<Rightarrow> Store option" where
  "applyWrites [] st = Some st"
| "applyWrites (w # ws) st =
     (case applyWrite w st of None \<Rightarrow> None | Some st' \<Rightarrow> applyWrites ws st')"

definition commit :: "Write list \<Rightarrow> Store \<Rightarrow> Store" where
  "commit batch st = (case applyWrites batch st of None \<Rightarrow> st | Some st' \<Rightarrow> st')"

section \<open>POSModal: sending to the kitchen and finalizing\<close>

text \<open>The order item built from a cart line by \<open>handleSendToKitchen\<close>
  (\<open>notes: cartItem.notes || ''\<close>).\<close>

definition toOrderItem :: "CartItem \<Rightarrow> OrderItem" where
  "toOrderItem cartItem =
     \<lparr>oi_name = ci_name cartItem, menuItemId = ci_id cartItem,
      price = basePrice cartItem + modifiersPrice (ci_selectedModifiers cartItem),
      oi_quantity = ci_quantity cartItem,
      oi_selectedModifiers = ci_selectedModifiers cartItem, isCompleted = False,
      oi_notes = Some (case ci_notes cartItem of None \<Rightarrow> [] | Some n \<Rightarrow> n),
      inventoryDeducted = None\<rparr>"

definition itemsSubtotal :: "OrderItem list \<Rightarrow> number" where
  "itemsSubtotal its = foldl (\<lambda>acc item. acc + price item * oi_quantity item) 0 its"

text \<open>The fields that the append branch of \<open>handleSendToKitchen\<close> writes to the first
  order of \<open>orderIds\<close>, computed from the order as read.\<close>

definition appendUpdate :: "string list \<Rightarrow> Tax list \<Rightarrow> OrderItem list \<Rightarrow> Order \<Rightarrow> Order \<Rightarrow> Order" where
  "appendUpdate taxIds txs orderItems existingOrder doc =
     (let combinedItems = items existingOrder @ orderItems;
          newSubtotal = itemsSubtotal combinedItems;
          newAppliedTaxes = appliedTaxes taxIds txs newSubtotal;
          newTaxAmount = taxAmount newAppliedTaxes;
          newTotal = newSubtotal + newTaxAmount + tip existingOrder
      in doc\<lparr>items := combinedItems, o_subtotal := newSubtotal, o_taxes := newAppliedTaxes,
              o_taxAmount := newTaxAmount, o_total := newTotal, status := InProgress\<rparr>)"

definition newOrderData :: "POSModal \<Rightarrow> nat \<Rightarrow> OrderItem list \<Rightarrow> OrderStatus \<Rightarrow> PaymentMethod option \<Rightarrow> Order" where
  "newOrderData p now orderItems st pm =
     (let sub = subtotal (cart p); txs = appliedTaxes (appliedTaxIds p) (taxes p) sub
      in \<lparr>items = orderItems, plateNumber = pos_identifier p, o_subtotal = sub,
          o_taxes = txs, o_taxAmount = taxAmount txs, tip = 0, platformFee = 0,
          o_total = total sub (taxAmount txs), status = st, createdAt = now,
          o_userId = userId p, o_notes = trim (orderNotes p), orderType = pos_type p,
          o_paymentMethod = pm, appliedDiscounts = []\<rparr>)"

definition markTable :: "string \<Rightarrow> TableStatus \<Rightarrow> FloorPlanTable list \<Rightarrow> FloorPlanTable list" where
  "markTable lbl s tables =
     map (\<lambda>tbl. if label tbl = lbl then tbl\<lparr>tbl_status := Some s\<rparr> else tbl) tables"

text \<open>\<open>handleSendToKitchen\<close>, at time \<open>now\<close>, with \<open>newId\<close> the id that the store
  generates for a new order document.\<close>

definition handleSendToKitchen :: "POSModal \<Rightarrow> nat \<Rightarrow> string \<Rightarrow> Store \<Rightarrow> Store" where
  "handleSendToKitchen p now newId st =
     (if cart p = [] \<or> (pos_type p = Takeaway \<and> pos_identifier p = []) then st
      else
        let orderItems = map toOrderItem (cart p);
            orderWrites =
              (if orderIds p \<noteq> [] then
                 (case orders st (hd (orderIds p)) of
                    None \<Rightarrow> []
                  | Some existingOrder \<Rightarrow>
                      [UpdateOrder (hd (orderIds p))
                         (appendUpdate (appliedTaxIds p) (taxes p) orderItems existingOrder)])
               else [SetOrder newId (newOrderData p now orderItems New None)]);
            tableWrites =
              (if pos_type p = DineIn \<and> orderIds p = [] \<and> tableNumber p \<noteq> [] then
                 (case floorPlan st of
                    None \<Rightarrow> []
                  | Some tables \<Rightarrow> [UpdateTables (markTable (tableNumber p) Ordered tables)])
               else [])
        in commit (orderWrites @ tableWrites) st)"

subsection \<open>Inventory ledger\<close>

text \<open>The order item built from a cart line by \<open>handleFinalizeOrder\<close>.\<close>

definition toFinalItem :: "CartItem \<Rightarrow> OrderItem" where
  "toFinalItem cartItem =
     \<lparr>oi_name = ci_name cartItem, menuItemId = ci_id cartItem,
      price = basePrice cartItem + modifiersPrice (ci_selectedModifiers cartItem),
      oi_quantity = ci_quantity cartItem,
      oi_selectedModifiers = ci_selectedModifiers cartItem, isCompleted = True,
      oi_notes = Some (case ci_notes cartItem of None \<Rightarrow> [] | Some n \<Rightarrow> n),
      inventoryDeducted = Some False\<rparr>"

text \<open>The \<open>deductions\<close> map, in insertion order:
  \<open>deductions.set(id, (deductions.get(id) || 0) + recipeItem.quantity * orderItem.quantity)\<close>.\<close>

definition getOr0 :: "(string \<times> number) list \<Rightarrow> string \<Rightarrow> number" where
  "getOr0 deductions ingId = (case map_of deductions ingId of Some d \<Rightarrow> d | None \<Rightarrow> 0)"

definition addDeduction :: "number \<Rightarrow> (string \<times> number) list \<Rightarrow> RecipeItem \<Rightarrow> (string \<times> number) list" where
  "addDeduction qty deductions recipeItem =
     AList.update (ingredientId recipeItem)
       (getOr0 deductions (ingredientId recipeItem) + ri_quantity recipeItem * qty)
       deductions"

text \<open>\<open>menuItem?.recipe\<close> of an order item: no lines when the menu has no such item or
  the item has no recipe.\<close>

definition recipeOf :: "MenuItem list \<Rightarrow> OrderItem \<Rightarrow> RecipeItem list" where
  "recipeOf menu orderItem =
     (case find (\<lambda>mi. mi_id mi = menuItemId orderItem) menu of
        None \<Rightarrow> []
      | Some mi \<Rightarrow> (case recipe mi of None \<Rightarrow> [] | Some r \<Rightarrow> r))"

definition deductionsOf :: "MenuItem list \<Rightarrow> OrderItem list \<Rightarrow> (string \<times> number) list" where
  "deductionsOf menu orderItems =
     foldl (\<lambda>deductions orderItem.
              foldl (addDeduction (oi_quantity orderItem)) deductions (recipeOf menu orderItem))
       [] orderItems"

text \<open>\<open>handleFinalizeOrder\<close>: one decrement per ingredient of the deductions map, then
  either the status and payment method of every order of \<open>orderIds\<close> and the table, or
  a new, completed order.\<close>

definition handleFinalizeOrder :: "POSModal \<Rightarrow> nat \<Rightarrow> string \<Rightarrow> Store \<Rightarrow> Store" where
  "handleFinalizeOrder p now newId st =
     (if cart p = [] \<or> (pos_type p = Takeaway \<and> pos_identifier p = []) then st
      else
        let orderItems = map toFinalItem (cart p);
            deductions = deductionsOf (allItems p) orderItems;
            deducted = map (\<lambda>orderItem. orderItem\<lparr>inventoryDeducted := Some True\<rparr>) orderItems;
            stockWrites = map (\<lambda>(ingId, quantity). IncrementStock ingId (- quantity)) deductions;
            orderWrites =
              (if orderIds p \<noteq> [] then
                 map (\<lambda>orderId. UpdateOrder orderId
                        (\<lambda>doc. doc\<lparr>status := Completed,
                                    o_paymentMethod := Some (paymentMethod p)\<rparr>)) (orderIds p)
                 @ (if tableNumber p \<noteq> [] then
                      (case floorPlan st of
                         None \<Rightarrow> []
                       | Some tables \<Rightarrow>
                           [UpdateTables (markTable (tableNumber p) NeedsCleaning tables)])
                    else [])
               else [SetOrder newId
                       (newOrderData p now deducted Completed (Some (paymentMethod p)))])
        in commit (stockWrites @ orderWrites) st)"

text \<open>The total shown on the payment view, and the \<open>disabled\<close> attribute of the button
  that calls \<open>handleFinalizeOrder\<close>:
  \<open>loading || (paymentMethod === 'cash' && (tenderedAmount === '' || tenderedAmount < total))\<close>.
  \<open>NaN === ''\<close> and \<open>NaN < total\<close> are false. A click on a disabled button calls
  nothing.\<close>

definition pos_total :: "POSModal \<Rightarrow> number" where
  "pos_total p =
     total (subtotal (cart p))
       (taxAmount (appliedTaxes (appliedTaxIds p) (taxes p) (subtotal (cart p))))"

definition finalizeDisabled :: "POSModal \<Rightarrow> bool" where
  "finalizeDisabled p \<longleftrightarrow>
     loading p \<or> (paymentMethod p = Cash \<and>
        (case tenderedAmount p of
           None \<Rightarrow> True
         | Some NaN \<Rightarrow> False
         | Some (Num t) \<Rightarrow> t < pos_total p))"

definition clickFinalize :: "POSModal \<Rightarrow> nat \<Rightarrow> string \<Rightarrow> Store \<Rightarrow> Store" where
  "clickFinalize p now newId st =
     (if finalizeDisabled p then st else handleFinalizeOrder p now newId st)"

section \<open>RapidOrderModal: submitting an order\<close>

text \<open>The props and the state of the RapidOrderModal component that
  \<open>handleSubmitOrder\<close> reads. An absent \<open>orderIdToAppend\<close> is the empty string; the
  applied tax ids of an absent profile are the empty list.\<close>

record RapidOrderModal =
  r_type :: OrderType
  orderIdToAppend :: string
  restaurantId :: string
  r_appliedTaxIds :: "string list"
  r_cart :: "CartItem list"
  r_identifier :: string
  r_taxes :: "Tax list"
  r_paymentMethod :: PaymentMethod
  r_orderNotes :: string

text \<open>The order item of a cart line: \<open>notes\<close> is set only when the line has a
  non-empty note.\<close>

definition rapid_toOrderItem :: "CartItem \<Rightarrow> OrderItem" where
  "rapid_toOrderItem cartItem =
     \<lparr>oi_name = ci_name cartItem, menuItemId = ci_id cartItem,
      price = basePrice cartItem + modifiersPrice (ci_selectedModifiers cartItem),
      oi_quantity = ci_quantity cartItem,
      oi_selectedModifiers = ci_selectedModifiers cartItem, isCompleted = False,
      oi_notes = (case ci_notes cartItem of None \<Rightarrow> None
                  | Some n \<Rightarrow> if n = [] then None else Some n),
      inventoryDeducted = None\<rparr>"

definition rapid_appendUpdate :: "string list \<Rightarrow> Tax list \<Rightarrow> OrderItem list \<Rightarrow> Order \<Rightarrow> Order \<Rightarrow> Order" where
  "rapid_appendUpdate taxIds txs orderItems existingOrder doc =
     (let combinedItems = items existingOrder @ orderItems;
          newSubtotal = itemsSubtotal combinedItems;
          newAppliedTaxes = rapid_appliedTaxes taxIds txs newSubtotal;
          newTaxAmount = taxAmount newAppliedTaxes;
          newTotal = newSubtotal + newTaxAmount + tip existingOrder
      in doc\<lparr>items := combinedItems, o_subtotal := newSubtotal, o_taxes := newAppliedTaxes,
              o_taxAmount := newTaxAmount, o_total := newTotal\<rparr>)"

definition rapid_newOrderData :: "RapidOrderModal \<Rightarrow> nat \<Rightarrow> OrderItem list \<Rightarrow> Order" where
  "rapid_newOrderData r now orderItems =
     (let sub = subtotal (r_cart r); txs = rapid_appliedTaxes (r_appliedTaxIds r) (r_taxes r) sub
      in \<lparr>items = orderItems, plateNumber = r_identifier r, o_subtotal = sub,
          o_taxes = txs, o_taxAmount = taxAmount txs, tip = 0, platformFee = 0,
          o_total = total sub (taxAmount txs), status = New, createdAt = now,
          o_userId = restaurantId r, o_notes = trim (r_orderNotes r), orderType = r_type r,
          o_paymentMethod = Some (r_paymentMethod r), appliedDiscounts = []\<rparr>)"

definition handleSubmitOrder :: "RapidOrderModal \<Rightarrow> nat \<Rightarrow> string \<Rightarrow> Store \<Rightarrow> Store" where
  "handleSubmitOrder r now newId st =
     (if r_cart r = [] \<or> (r_type r = Takeaway \<and> r_identifier r = []) then st
      else
        let orderItems = map rapid_toOrderItem (r_cart r)
        in if orderIdToAppend r \<noteq> [] then
             (case orders st (orderIdToAppend r) of
                None \<Rightarrow> st
              | Some existingOrder \<Rightarrow>
                  commit [UpdateOrder (orderIdToAppend r)
                            (rapid_appendUpdate (r_appliedTaxIds r) (r_taxes r) orderItems
                               existingOrder)] st)
           else commit [SetOrder newId (rapid_newOrderData r now orderItems)] st)"

section \<open>Floor-status deriver (FloorPlanPage)\<close>




definition derivedStatus :: "FloorPlanTable \<Rightarrow> (string \<times> Order) list \<Rightarrow> TableStatus" where
  "derivedStatus tbl tableOrders =
     (if tbl_status tbl = Some NeedsCleaning then NeedsCleaning
      else if tableOrders \<noteq> [] then
        (let hasReadyOrder = list_ex (\<lambda>(oid, ord). status ord = Ready) tableOrders;
             hasActiveOrder = list_ex (\<lambda>(oid, ord). status ord = InProgress \<or> status ord = New)
                                tableOrders
         in if hasReadyOrder then Attention
            else if hasActiveOrder then Ordered
            else Available)
      else if tbl_status tbl = Some Seated then Seated
      else Available)"



section \<open>Kitchen display (KitchenDisplayPage)\<close>

text \<open>An occurrence of a dish in an aggregated group: the order and the index of the
  line in it (the other fields of the source are only displayed).\<close>

record KDSIndividualOrder =
  orderId :: string
  itemIndex :: nat

text \<open>Writing a property of \<open>items[itemIndex]\<close> when the index is out of range throws.\<close>

datatype JsError = TypeError

definition markDone :: "OrderItem list \<Rightarrow> nat \<Rightarrow> OrderItem list" where
  "markDone its i = its[i := (its ! i)\<lparr>isCompleted := True\<rparr>]"

definition newStatus :: "OrderStatus \<Rightarrow> OrderItem list \<Rightarrow> OrderStatus" where
  "newStatus s its =
     (if list_all isCompleted its then Ready else if s = New then InProgress else s)"

definition handleCompleteIndividual ::
  "(string \<rightharpoonup> Order) \<Rightarrow> string \<Rightarrow> nat \<Rightarrow> JsError + (string \<rightharpoonup> Order)" where
  "handleCompleteIndividual ords oid idx =
     (case ords oid of
        None \<Rightarrow> Inr ords
      | Some orderData \<Rightarrow>
          if idx < length (items orderData) then
            let updatedItems = markDone (items orderData) idx
            in Inr (ords(oid \<mapsto> orderData\<lparr>items := updatedItems,
                                            status := newStatus (status orderData) updatedItems\<rparr>))
          else Inl TypeError)"

text \<open>The second loop of \<open>handleBumpAll\<close>, over the occurrences of the group: the
  documents read are marked in memory.\<close>

fun markAll ::
  "(string \<rightharpoonup> Order) \<Rightarrow> KDSIndividualOrder list \<Rightarrow> JsError + (string \<rightharpoonup> Order)" where
  "markAll orderDocs [] = Inr orderDocs"
| "markAll orderDocs (indOrder # rest) =
     (case orderDocs (orderId indOrder) of
        None \<Rightarrow> markAll orderDocs rest
      | Some orderData \<Rightarrow>
          if itemIndex indOrder < length (items orderData) then
            markAll (orderDocs(orderId indOrder \<mapsto>
                       orderData\<lparr>items := markDone (items orderData) (itemIndex indOrder)\<rparr>)) rest
          else Inl TypeError)"

text \<open>\<open>handleBumpAll\<close>: the existing orders of the group are read, marked, and written
  back in one batch with their recomputed status. The set of affected ids is iterated
  as a duplicate-free list; every id is written once.\<close>

definition handleBumpAll ::
  "(string \<rightharpoonup> Order) \<Rightarrow> KDSIndividualOrder list \<Rightarrow> JsError + (string \<rightharpoonup> Order)" where
  "handleBumpAll ords individualOrders =
     (let affectedOrderIds = remdups (map orderId individualOrders);
          orderDocs = ords |` set affectedOrderIds
      in case markAll orderDocs individualOrders of
           Inl e \<Rightarrow> Inl e
         | Inr marked \<Rightarrow>
             Inr (foldl (\<lambda>st oid.
                     case marked oid of
                       None \<Rightarrow> st
                     | Some orderData \<Rightarrow>
                         (case st oid of
                            None \<Rightarrow> st
                          | Some doc \<Rightarrow>
                              st(oid \<mapsto> doc\<lparr>items := items orderData,
                                    status := newStatus (status orderData) (items orderData)\<rparr>)))
                   ords affectedOrderIds))"

text \<open>Completing the occurrences of a group one at a time, each with
  \<open>handleCompleteIndividual\<close>.\<close>

fun completeEach ::
  "(string \<rightharpoonup> Order) \<Rightarrow> KDSIndividualOrder list \<Rightarrow> JsError + (string \<rightharpoonup> Order)" where
  "completeEach ords [] = Inr ords"
| "completeEach ords (indOrder # rest) =
     (case handleCompleteIndividual ords (orderId indOrder) (itemIndex indOrder) of
        Inl e \<Rightarrow> Inl e
      | Inr ords' \<Rightarrow> completeEach ords' rest)"

text \<open>The order that \<open>handleCompleteIndividual\<close> writes for the order \<open>orderData\<close> and
  an index in range; the indices of the occurrences of a group that lie in the order
  \<open>oid\<close>; and the condition that no occurrence of a group points behind the last line
  of its order.\<close>

definition completeItem :: "Order \<Rightarrow> nat \<Rightarrow> Order" where
  "completeItem orderData idx =
     orderData\<lparr>items := markDone (items orderData) idx,
               status := newStatus (status orderData) (markDone (items orderData) idx)\<rparr>"

definition indicesIn :: "string \<Rightarrow> KDSIndividualOrder list \<Rightarrow> nat list" where
  "indicesIn oid individualOrders =
     map itemIndex (filter (\<lambda>indOrder. orderId indOrder = oid) individualOrders)"

definition inRange :: "(string \<rightharpoonup> Order) \<Rightarrow> KDSIndividualOrder list \<Rightarrow> bool" where
  "inRange ords individualOrders =
     list_all (\<lambda>indOrder. case ords (orderId indOrder) of
                            None \<Rightarrow> True
                          | Some orderData \<Rightarrow> itemIndex indOrder < length (items orderData))
       individualOrders"

section \<open>Properties stated by the specification\<close>

text \<open>The discounts of an order, summed as the Z report sums them:
  \<open>appliedDiscounts.reduce((dSum, d) => dSum + d.amount, 0)\<close>.\<close>

definition orderDiscounts :: "Order \<Rightarrow> number" where
  "orderDiscounts ord = foldl (\<lambda>dSum d. dSum + discount_amount d) 0 (appliedDiscounts ord)"

text \<open>The invariant of a persisted order, in the words of the specification:
  total = subtotal - discounts + taxAmount + tip + platformFee.\<close>

definition totalInvariant :: "Order \<Rightarrow> bool" where
  "totalInvariant ord \<longleftrightarrow>
     o_total ord = o_subtotal ord - orderDiscounts ord + o_taxAmount ord + tip ord
                     + platformFee ord"

text \<open>The open orders for a table, in the words of the specification: the live orders
  that are not takeaway and whose plate number matches the label of the table without
  regard to case, that is, has the same upper-case form. An order without a plate number
  matches no table.\<close>

definition sameIgnoringCase :: "string \<Rightarrow> string \<Rightarrow> bool" where
  "sameIgnoringCase a b \<longleftrightarrow> toUpperCase a = toUpperCase b"



text \<open>A cart line that carries the name and the menu item id of an order item, and as
  base price the price that the re-hydration resolves for it.\<close>

definition lineOf :: "MenuItem list \<Rightarrow> CartItem \<Rightarrow> OrderItem \<Rightarrow> bool" where
  "lineOf menu ci it \<longleftrightarrow>
     ci_name ci = oi_name it \<and> ci_id ci = menuItemId it
     \<and> basePrice ci = rehydratedPrice menu it"

text \<open>The quantity of an ingredient that a batch of order items needs: the sum, over the
  order items and the lines of their recipes that name the ingredient, of recipe
  quantity times ordered quantity.\<close>

definition required :: "MenuItem list \<Rightarrow> OrderItem list \<Rightarrow> string \<Rightarrow> number" where
  "required menu orderItems ingId =
     (\<Sum>orderItem\<leftarrow>orderItems. \<Sum>recipeItem\<leftarrow>recipeOf menu orderItem.
        if ingredientId recipeItem = ingId then ri_quantity recipeItem * oi_quantity orderItem
        else 0)"

section \<open>Example data\<close>

text \<open>The cart of the pricing example: one line of base price 2.000 with one modifier
  of 0.500, three times; and a single tax of 5 percent.\<close>

definition example_cart :: "CartItem list" where
  "example_cart =
     [\<lparr>cartItemId = ''m1-Cheese'', ci_id = ''m1'', ci_name = ''Burger'', basePrice = 2,
       ci_quantity = 3,
       ci_selectedModifiers = [\<lparr>optionName = ''Cheese'', optionPrice = 1 / 2\<rparr>],
       ci_notes = None\<rparr>]"

definition example_taxes :: "Tax list" where
  "example_taxes = [\<lparr>tax_id = ''vat'', tax_name = ''VAT'', tax_rate = 5\<rparr>]"

text \<open>A menu of two dishes that share the ingredient X: 2 units per burger, 3 per
  portion of fries.\<close>

definition example_menu :: "MenuItem list" where
  "example_menu =
     [\<lparr>mi_id = ''m1'', mi_name = ''Burger'', mi_price = 2,
       recipe = Some [\<lparr>ingredientId = ''X'', ri_quantity = 2\<rparr>], hasModifierGroups = False\<rparr>,
      \<lparr>mi_id = ''m2'', mi_name = ''Fries'', mi_price = 1,
       recipe = Some [\<lparr>ingredientId = ''X'', ri_quantity = 3\<rparr>], hasModifierGroups = False\<rparr>]"

definition example_item :: "string \<Rightarrow> string \<Rightarrow> number \<Rightarrow> number \<Rightarrow> bool \<Rightarrow> OrderItem" where
  "example_item mid nm pr q done =
     \<lparr>oi_name = nm, menuItemId = mid, price = pr, oi_quantity = q, oi_selectedModifiers = [],
      isCompleted = done, oi_notes = Some [], inventoryDeducted = None\<rparr>"

definition example_order :: "OrderItem list \<Rightarrow> OrderStatus \<Rightarrow> Order" where
  "example_order its s =
     \<lparr>items = its, plateNumber = ''T1'', o_subtotal = itemsSubtotal its, o_taxes = [],
      o_taxAmount = 0, tip = 0, platformFee = 0, o_total = itemsSubtotal its, status = s,
      createdAt = 100, o_userId = ''u1'', o_notes = [], orderType = DineIn,
      o_paymentMethod = None, appliedDiscounts = []\<rparr>"

definition example_table :: "TableStatus option \<Rightarrow> FloorPlanTable" where
  "example_table s = \<lparr>tbl_id = ''t1'', label = ''T1'', tbl_status = s\<rparr>"

text \<open>A store with the orders \<open>ords\<close>, 100 units of X in stock, and a floor plan with
  the table T1.\<close>

definition example_store :: "(string \<rightharpoonup> Order) \<Rightarrow> Store" where
  "example_store ords =
     \<lparr>orders = ords, stock = [''X'' \<mapsto> 100],
      floorPlan = Some [example_table (Some Ordered)]\<rparr>"

text \<open>A POSModal opened on table T1 for the orders \<open>ids\<close>, with the cart \<open>c\<close>.\<close>

definition example_pos :: "string list \<Rightarrow> CartItem list \<Rightarrow> POSModal" where
  "example_pos ids c =
     \<lparr>pos_type = DineIn, tableNumber = ''T1'', orderIds = ids, userId = ''u1'',
      allItems = example_menu, appliedTaxIds = [''vat''], cart = c, pos_identifier = ''T1'',
      taxes = example_taxes, paymentMethod = Cash, tenderedAmount = None, orderNotes = [],
      loading = False\<rparr>"

text \<open>The first round of table T1: two burgers and one portion of fries.\<close>

definition example_round :: "OrderItem list" where
  "example_round =
     [example_item ''m1'' ''Burger'' 2 2 False, example_item ''m2'' ''Fries'' 1 1 False]"

definition example_rapid :: "string \<Rightarrow> CartItem list \<Rightarrow> RapidOrderModal" where
  "example_rapid appendTo c =
     \<lparr>r_type = DineIn, orderIdToAppend = appendTo, restaurantId = ''u1'',
      r_appliedTaxIds = [''vat''], r_cart = c, r_identifier = ''T1'', r_taxes = example_taxes,
      r_paymentMethod = Card, r_orderNotes = []\<rparr>"

text \<open>Table T1 with one open order \<open>o1\<close> of one burger, already completed by the
  kitchen; and a POSModal opened on it, its cart set by the re-hydration at time 1000.\<close>

definition example_served :: Store where
  "example_served =
     example_store [''o1'' \<mapsto> example_order [example_item ''m1'' ''Burger'' 2 1 True] InProgress]"

definition example_opened :: POSModal where
  "example_opened = rehydrationEffect (example_pos [''o1''] []) 1000 example_served"

text \<open>The live menu after the price of the burger has been raised from 2 to 3.\<close>

definition example_menu_repriced :: "MenuItem list" where
  "example_menu_repriced =
     [\<lparr>mi_id = ''m1'', mi_name = ''Burger'', mi_price = 3,
       recipe = Some [\<lparr>ingredientId = ''X'', ri_quantity = 2\<rparr>], hasModifierGroups = False\<rparr>]"

text \<open>An open order placed by a customer for table T1: one burger, with a platform fee
  of 0.500 in its total of 2.500.\<close>

definition example_customer_order :: Order where
  "example_customer_order =
     (example_order [example_item ''m1'' ''Burger'' 2 1 False] New)
       \<lparr>platformFee := 1 / 2, o_total := 5 / 2\<rparr>"

text \<open>Table T1 with the open order \<open>o1\<close> of the first round; and the POSModal of a
  terminal that opens the table at time \<open>now\<close> on the store \<open>st\<close> and selects payment by
  card.\<close>

definition example_ordered :: Store where
  "example_ordered = example_store [''o1'' \<mapsto> example_order example_round InProgress]"

definition example_paying :: "nat \<Rightarrow> Store \<Rightarrow> POSModal" where
  "example_paying now st = (rehydrationEffect (example_pos [''o1''] []) now st)\<lparr>paymentMethod := Card\<rparr>"

text \<open>The live orders of the kitchen: the first round of table T1 and a second order of
  one portion of fries; and the aggregated group of the fries, with one occurrence in
  each order.\<close>

definition example_kitchen :: "string \<rightharpoonup> Order" where
  "example_kitchen =
     [''o1'' \<mapsto> example_order example_round New,
      ''o2'' \<mapsto> example_order [example_item ''m2'' ''Fries'' 1 1 False] New]"

definition example_group :: "KDSIndividualOrder list" where
  "example_group = [\<lparr>orderId = ''o1'', itemIndex = 1\<rparr>, \<lparr>orderId = ''o2'', itemIndex = 0\<rparr>]"

text \<open>A POSModal for a new cash order of the example cart (total 7.875) with the tendered
  amount \<open>tendered\<close>, on a store without orders.\<close>

definition example_cash :: "JsNumber option \<Rightarrow> POSModal" where
  "example_cash tendered = (example_pos [] example_cart)\<lparr>tenderedAmount := tendered\<rparr>"




section \<open>Pricing\<close>

lemma foldl_add_sum_list:
  "foldl (\<lambda>acc x. acc + f x) a xs = (a::rat) + sum_list (map f xs)"
  by (induction xs arbitrary: a) simp_all

lemma modifiersPrice_sum: "modifiersPrice ms = (\<Sum>m\<leftarrow>ms. optionPrice m)"
  by (simp add: modifiersPrice_def foldl_add_sum_list)

lemma subtotal_sum:
  "subtotal c =
     (\<Sum>item\<leftarrow>c. (basePrice item + (\<Sum>m\<leftarrow>ci_selectedModifiers item. optionPrice m))
                    * ci_quantity item)"
  by (simp add: subtotal_def foldl_add_sum_list modifiersPrice_sum)

lemma taxAmount_sum: "taxAmount ts = (\<Sum>t\<leftarrow>ts. amount t)"
  by (simp add: taxAmount_def foldl_add_sum_list)

lemma itemsSubtotal_sum: "itemsSubtotal its = (\<Sum>item\<leftarrow>its. price item * oi_quantity item)"
  by (simp add: itemsSubtotal_def foldl_add_sum_list)

lemma example_subtotal: "subtotal example_cart = 15 / 2"
  by (simp add: example_cart_def subtotal_def modifiersPrice_def)

lemma example_appliedTaxes:
  "appliedTaxes [''vat''] example_taxes (15 / 2)
     = [\<lparr>at_name = ''VAT'', at_rate = 5, amount = 3 / 8\<rparr>]"
  by (simp add: appliedTaxes_def example_taxes_def taxAt_def)

lemma example_pos_total: "pos_total (example_pos ids example_cart) = 63 / 8"
  by (simp add: pos_total_def example_pos_def example_subtotal example_appliedTaxes
        taxAmount_def total_def)

text \<open>
  C8 (pricing correctness). For every cart the subtotal is the sum over the lines of
  (base price + sum of the selected modifier prices) times quantity; every applied tax,
  in POSModal and in RapidOrderModal, has the amount subtotal times rate / 100; the tax
  amount is the sum of these amounts and the total is subtotal + tax amount, also on the
  order that either component creates. In particular the cart of one line of base price
  2.000 with one modifier of 0.500, quantity 3, under a single tax of 5 percent has
  subtotal 7.500, tax amount 0.375 and total 7.875.
\<close>

theorem pricing_correctness:
  "subtotal c =
     (\<Sum>item\<leftarrow>c. (basePrice item + (\<Sum>m\<leftarrow>ci_selectedModifiers item. optionPrice m))
                    * ci_quantity item)
   \<and> (\<forall>t \<in> set (appliedTaxes ids txs (subtotal c)). amount t = subtotal c * (at_rate t / 100))
   \<and> (\<forall>t \<in> set (rapid_appliedTaxes ids txs (subtotal c)).
         amount t = subtotal c * (at_rate t / 100))
   \<and> taxAmount ts = (\<Sum>t\<leftarrow>ts. amount t)
   \<and> pos_total p
       = subtotal (cart p) + taxAmount (appliedTaxes (appliedTaxIds p) (taxes p) (subtotal (cart p)))
   \<and> o_total (newOrderData p now its s pm)
       = o_subtotal (newOrderData p now its s pm) + o_taxAmount (newOrderData p now its s pm)
   \<and> o_total (rapid_newOrderData r now its)
       = o_subtotal (rapid_newOrderData r now its) + o_taxAmount (rapid_newOrderData r now its)
   \<and> subtotal example_cart = 15 / 2
   \<and> map amount (appliedTaxes [''vat''] example_taxes (subtotal example_cart)) = [3 / 8]
   \<and> map amount (rapid_appliedTaxes [''vat''] example_taxes (subtotal example_cart)) = [3 / 8]
   \<and> pos_total (example_pos [] example_cart) = 63 / 8"
proof -
  have taxes1: "\<forall>t \<in> set (appliedTaxes ids txs (subtotal c)).
                  amount t = subtotal c * (at_rate t / 100)"
    by (auto simp: appliedTaxes_def taxAt_def)
  have taxes2: "\<forall>t \<in> set (rapid_appliedTaxes ids txs (subtotal c)).
                  amount t = subtotal c * (at_rate t / 100)"
    by (auto simp: rapid_appliedTaxes_def taxAt_def)
  have tot: "pos_total p
       = subtotal (cart p) + taxAmount (appliedTaxes (appliedTaxIds p) (taxes p) (subtotal (cart p)))"
    by (simp add: pos_total_def total_def)
  have new1: "o_total (newOrderData p now its s pm)
       = o_subtotal (newOrderData p now its s pm) + o_taxAmount (newOrderData p now its s pm)"
    by (simp add: newOrderData_def total_def Let_def)
  have new2: "o_total (rapid_newOrderData r now its)
       = o_subtotal (rapid_newOrderData r now its) + o_taxAmount (rapid_newOrderData r now its)"
    by (simp add: rapid_newOrderData_def total_def Let_def)
  have ex1: "map amount (appliedTaxes [''vat''] example_taxes (subtotal example_cart)) = [3 / 8]"
    by (simp add: example_subtotal example_appliedTaxes)
  have ex2: "map amount (rapid_appliedTaxes [''vat''] example_taxes (subtotal example_cart))
               = [3 / 8]"
    by (simp add: example_subtotal rapid_appliedTaxes_def example_taxes_def taxAt_def)
  show ?thesis
    using subtotal_sum [of c] taxes1 taxes2 taxAmount_sum [of ts] tot new1 new2
      example_subtotal ex1 ex2 example_pos_total [of "[]"]
    by blast
qed

theorem pricing_correctness_witness:
  "\<lparr>at_name = ''VAT'', at_rate = 5, amount = 3 / 8\<rparr>
     \<in> set (appliedTaxes [''vat''] example_taxes (subtotal example_cart))
   \<and> \<lparr>at_name = ''VAT'', at_rate = 5, amount = 3 / 8\<rparr>
     \<in> set (rapid_appliedTaxes [''vat''] example_taxes (subtotal example_cart))
   \<and> amount \<lparr>at_name = ''VAT'', at_rate = 5, amount = 3 / 8\<rparr>
       = subtotal example_cart * (at_rate \<lparr>at_name = ''VAT'', at_rate = 5, amount = 3 / 8\<rparr> / 100)"
proof -
  have m1: "\<lparr>at_name = ''VAT'', at_rate = 5, amount = 3 / 8\<rparr>
     \<in> set (appliedTaxes [''vat''] example_taxes (subtotal example_cart))"
    by (simp add: example_subtotal example_appliedTaxes)
  have m2: "\<lparr>at_name = ''VAT'', at_rate = 5, amount = 3 / 8\<rparr>
     \<in> set (rapid_appliedTaxes [''vat''] example_taxes (subtotal example_cart))"
    by (simp add: example_subtotal rapid_appliedTaxes_def example_taxes_def taxAt_def)
  from pricing_correctness [of example_cart "[''vat'']" example_taxes] m1 m2
  show ?thesis by blast
qed

section \<open>Change due and the finalize button\<close>

text \<open>For a tendered number the change due is tendered - total and the value shown is
  that difference, or 0 when it is not positive; with the cash payment method the
  finalize button is disabled, and a click writes nothing, when the tendered amount is
  the empty string or a number below the total. A tendered \<open>NaN\<close> shows 0 and does not
  disable the button.\<close>

lemma change_due_rules:
  "changeDue (Some (Num t)) tot = Num (t - tot)
   \<and> changeDueShown (changeDue (Some (Num t)) tot) = max 0 (t - tot)
   \<and> changeDueShown (changeDue None tot) = 0
   \<and> changeDueShown (changeDue (Some NaN) tot) = 0
   \<and> (paymentMethod p = Cash
        \<and> (tenderedAmount p = None
            \<or> (\<exists>t'. tenderedAmount p = Some (Num t') \<and> t' < pos_total p))
        \<longrightarrow> finalizeDisabled p \<and> clickFinalize p now newId st = st)
   \<and> (\<not> loading p \<and> tenderedAmount p = Some NaN
        \<longrightarrow> \<not> finalizeDisabled p
            \<and> clickFinalize p now newId st = handleFinalizeOrder p now newId st)"
  by (auto simp: changeDue_def changeDueShown_def finalizeDisabled_def clickFinalize_def
        split: option.splits JsNumber.splits)

text \<open>
  C9 (change due, cash), at a concrete payment. A new cash order of the example cart has
  the total 7.875. Tendering 10.000 shows the change 2.125. Tendering 7.000 shows 0.000
  and disables the finalize button, so that a click leaves the store as it was; with no
  tendered amount the button is disabled too. When the numpad input has made the
  tendered amount \<open>NaN\<close> (a decimal point typed first), the change shown is 0.000, the
  button is not disabled, and the click writes the order as Completed and paid in cash
  at 7.875 and takes 6 units of X from the stock.
\<close>

theorem nan_tender_finalizes:
  "pos_total (example_cash (Some NaN)) = 63 / 8
   \<and> changeDueShown (changeDue (Some (Num 10)) (63 / 8)) = 17 / 8
   \<and> changeDueShown (changeDue (Some (Num 7)) (63 / 8)) = 0
   \<and> finalizeDisabled (example_cash (Some (Num 7)))
   \<and> clickFinalize (example_cash (Some (Num 7))) 5000 ''n1'' (example_store Map.empty)
       = example_store Map.empty
   \<and> finalizeDisabled (example_cash None)
   \<and> changeDueShown (changeDue (Some NaN) (63 / 8)) = 0
   \<and> \<not> finalizeDisabled (example_cash (Some NaN))
   \<and> map_option (\<lambda>ord. (status ord, o_paymentMethod ord, o_total ord))
        (orders (clickFinalize (example_cash (Some NaN)) 5000 ''n1'' (example_store Map.empty))
           ''n1'')
       = Some (Completed, Some Cash, 63 / 8)
   \<and> stock (clickFinalize (example_cash (Some NaN)) 5000 ''n1'' (example_store Map.empty)) ''X''
       = Some 94"
proof -
  have tot: "pos_total (example_cash tendered) = 63 / 8" for tendered
    using example_pos_total [of "[]"] by (simp add: example_cash_def pos_total_def)
  have pm: "paymentMethod (example_cash tendered) = Cash \<and> \<not> loading (example_cash tendered)
            \<and> tenderedAmount (example_cash tendered) = tendered" for tendered
    by (simp add: example_cash_def example_pos_def)
  have shown: "changeDueShown (changeDue (Some (Num 10)) (63 / 8)) = 17 / 8
               \<and> changeDueShown (changeDue (Some (Num 7)) (63 / 8)) = 0
               \<and> changeDueShown (changeDue (Some NaN) (63 / 8)) = 0"
    by (simp add: changeDue_def changeDueShown_def)
  have d7: "finalizeDisabled (example_cash (Some (Num 7)))"
    by (simp add: finalizeDisabled_def tot pm)
  have dn: "finalizeDisabled (example_cash None)"
    by (simp add: finalizeDisabled_def pm)
  have nan: "\<not> finalizeDisabled (example_cash (Some NaN))"
    by (simp add: finalizeDisabled_def pm)
  have blocked: "clickFinalize (example_cash (Some (Num 7))) 5000 ''n1'' (example_store Map.empty)
                   = example_store Map.empty"
    using d7 by (simp add: clickFinalize_def)
  note defs = handleFinalizeOrder_def toFinalItem_def deductionsOf_def recipeOf_def
    addDeduction_def getOr0_def markTable_def newOrderData_def commit_def subtotal_def
    appliedTaxes_def taxAt_def taxAmount_def total_def modifiersPrice_def Let_def
    example_cash_def example_pos_def example_cart_def example_menu_def example_taxes_def
    example_store_def example_table_def
  have fin: "clickFinalize (example_cash (Some NaN)) 5000 ''n1'' (example_store Map.empty)
               = handleFinalizeOrder (example_cash (Some NaN)) 5000 ''n1'' (example_store Map.empty)"
    using nan by (simp add: clickFinalize_def)
  have written: "map_option (\<lambda>ord. (status ord, o_paymentMethod ord, o_total ord))
        (orders (clickFinalize (example_cash (Some NaN)) 5000 ''n1'' (example_store Map.empty))
           ''n1'')
       = Some (Completed, Some Cash, 63 / 8)"
    unfolding fin by (simp add: defs)
  have stk: "stock (clickFinalize (example_cash (Some NaN)) 5000 ''n1'' (example_store Map.empty)) ''X''
       = Some 94"
    unfolding fin by (simp add: defs)
  from tot [of "Some NaN"] shown d7 dn nan blocked written stk show ?thesis by blast
qed

section \<open>Appending to an open order\<close>

lemma commit_single_update:
  "orders st k = Some ord \<Longrightarrow>
     commit [UpdateOrder k f] st = st\<lparr>orders := (orders st)(k \<mapsto> f ord)\<rparr>"
  by (simp add: commit_def)

lemma commit_single_set:
  "commit [SetOrder k ord] st = st\<lparr>orders := (orders st)(k \<mapsto> ord)\<rparr>"
  by (simp add: commit_def)

lemma commit_nil: "commit [] st = st"
  by (simp add: commit_def)

text \<open>What the two append paths write, given the cart at the time of the click: the
  items of the order as read, followed by one new, not completed item per cart line.\<close>

lemma handleSendToKitchen_append:
  assumes "cart p \<noteq> []" and "\<not> (pos_type p = Takeaway \<and> pos_identifier p = [])"
    and "orderIds p \<noteq> []" and "orders st (hd (orderIds p)) = Some ex"
  shows "handleSendToKitchen p now newId st
           = st\<lparr>orders := (orders st)(hd (orderIds p) \<mapsto>
                  appendUpdate (appliedTaxIds p) (taxes p) (map toOrderItem (cart p)) ex ex)\<rparr>"
  using assms by (auto simp: handleSendToKitchen_def Let_def commit_single_update)

lemma handleSendToKitchen_append_missing:
  assumes "orderIds p \<noteq> []" and "orders st (hd (orderIds p)) = None"
  shows "handleSendToKitchen p now newId st = st"
  using assms by (simp add: handleSendToKitchen_def Let_def commit_nil)

lemma handleSubmitOrder_append:
  assumes "r_cart r \<noteq> []" and "\<not> (r_type r = Takeaway \<and> r_identifier r = [])"
    and "orderIdToAppend r \<noteq> []" and "orders st (orderIdToAppend r) = Some ex"
  shows "handleSubmitOrder r now newId st
           = st\<lparr>orders := (orders st)(orderIdToAppend r \<mapsto>
                  rapid_appendUpdate (r_appliedTaxIds r) (r_taxes r)
                    (map rapid_toOrderItem (r_cart r)) ex ex)\<rparr>"
  using assms by (auto simp: handleSubmitOrder_def Let_def commit_single_update)

lemma appended_items:
  "items (appendUpdate ids txs (map toOrderItem c) ex ex) = items ex @ map toOrderItem c
   \<and> items (rapid_appendUpdate ids txs (map rapid_toOrderItem c) ex ex)
       = items ex @ map rapid_toOrderItem c
   \<and> list_all (\<lambda>it. \<not> isCompleted it) (map toOrderItem c)
   \<and> list_all (\<lambda>it. \<not> isCompleted it) (map rapid_toOrderItem c)"
  by (simp add: appendUpdate_def rapid_appendUpdate_def Let_def list_all_iff toOrderItem_def
        rapid_toOrderItem_def)

text \<open>
  C10 (frame of the append). When POSModal sends items to the kitchen for a table with
  order ids, only the first order of the list can change, and only in its items,
  subtotal, taxes, tax amount, total and status: every other order, the stock and the
  floor plan are as before.
\<close>

theorem append_modifies_first_order_only:
  assumes "orderIds p \<noteq> []"
  shows "(\<forall>oid. oid \<noteq> hd (orderIds p) \<longrightarrow>
            orders (handleSendToKitchen p now newId st) oid = orders st oid)
         \<and> stock (handleSendToKitchen p now newId st) = stock st
         \<and> floorPlan (handleSendToKitchen p now newId st) = floorPlan st
         \<and> map_option (\<lambda>ord. ord\<lparr>items := [], o_subtotal := 0, o_taxes := [], o_taxAmount := 0,
                                  o_total := 0, status := New\<rparr>)
              (orders (handleSendToKitchen p now newId st) (hd (orderIds p)))
           = map_option (\<lambda>ord. ord\<lparr>items := [], o_subtotal := 0, o_taxes := [], o_taxAmount := 0,
                                  o_total := 0, status := New\<rparr>)
              (orders st (hd (orderIds p)))"
proof (cases "cart p = [] \<or> (pos_type p = Takeaway \<and> pos_identifier p = [])")
  case True
  then show ?thesis by (simp add: handleSendToKitchen_def)
next
  case False
  show ?thesis
  proof (cases "orders st (hd (orderIds p))")
    case None
    with assms show ?thesis by (simp add: handleSendToKitchen_append_missing)
  next
    case (Some ex)
    with assms False show ?thesis
      by (simp add: handleSendToKitchen_append appendUpdate_def Let_def)
  qed
qed

theorem append_modifies_first_order_only_witness:
  "orderIds (example_pos [''o1'', ''o2''] example_cart) \<noteq> []
   \<and> ''o2'' \<noteq> hd (orderIds (example_pos [''o1'', ''o2''] example_cart))
   \<and> orders (handleSendToKitchen (example_pos [''o1'', ''o2''] example_cart) 5 ''n1''
        (example_store [''o1'' \<mapsto> example_order example_round InProgress,
                        ''o2'' \<mapsto> example_order example_round New])) ''o2''
       = Some (example_order example_round New)
   \<and> map_option (\<lambda>ord. length (items ord))
        (orders (handleSendToKitchen (example_pos [''o1'', ''o2''] example_cart) 5 ''n1''
          (example_store [''o1'' \<mapsto> example_order example_round InProgress,
                          ''o2'' \<mapsto> example_order example_round New])) ''o1'') = Some 3"
proof -
  let ?P = "example_pos [''o1'', ''o2''] example_cart"
  let ?S = "example_store [''o1'' \<mapsto> example_order example_round InProgress,
                          ''o2'' \<mapsto> example_order example_round New]"
  have h: "orderIds ?P \<noteq> []" by (simp add: example_pos_def)
  have ne: "''o2'' \<noteq> hd (orderIds ?P)" by (simp add: example_pos_def)
  from append_modifies_first_order_only [OF h, of 5 "''n1''" ?S] ne
  have "orders (handleSendToKitchen ?P 5 ''n1'' ?S) ''o2'' = orders ?S ''o2''" by blast
  moreover have "orders ?S ''o2'' = Some (example_order example_round New)"
    by (simp add: example_store_def)
  moreover have "map_option (\<lambda>ord. length (items ord))
        (orders (handleSendToKitchen ?P 5 ''n1'' ?S) ''o1'') = Some 3"
    by (simp add: handleSendToKitchen_append [where ex = "example_order example_round InProgress"]
          example_pos_def example_store_def example_cart_def appendUpdate_def Let_def
          example_order_def example_round_def)
  ultimately show ?thesis using h ne by simp
qed

text \<open>
  C2 (appending is additive only), at a concrete table. Table T1 has the order \<open>o1\<close>
  with one burger, completed. POSModal is opened on the table (its cart is set by the
  re-hydration to the burger line), the waiter adds fries and sends to the kitchen: the
  order then holds the completed burger, a second burger that is not completed, and the
  fries. The same append through RapidOrderModal, whose cart starts empty, gives the
  completed burger followed by the fries.
\<close>

theorem pos_append_duplicates_existing_items:
  "map (\<lambda>l. (ci_id l, ci_quantity l)) (cart example_opened) = [(''m1'', 1)]
   \<and> map_option (\<lambda>ord. map (\<lambda>it. (menuItemId it, oi_quantity it, isCompleted it)) (items ord))
        (orders
           (handleSendToKitchen
              (example_opened\<lparr>cart := handleSelectItem 2000 (example_menu ! 1)
                                        (cart example_opened)\<rparr>)
              3000 ''n1'' example_served)
           ''o1'')
       = Some [(''m1'', 1, True), (''m1'', 1, False), (''m2'', 1, False)]
   \<and> map_option (\<lambda>ord. map (\<lambda>it. (menuItemId it, oi_quantity it, isCompleted it)) (items ord))
        (orders
           (handleSubmitOrder
              (example_rapid ''o1'' (rapid_handleSelectItem (example_menu ! 1) []))
              3000 ''n1'' example_served)
           ''o1'')
       = Some [(''m1'', 1, True), (''m2'', 1, False)]"
proof -
  note defs = handleSendToKitchen_def rehydrationEffect_def rehydrate_def rehydrateItem_def
    rehydratedPrice_def queryOrders_def modifiersString_def handleSelectItem_def
    handleAddToCart_def toOrderItem_def appendUpdate_def itemsSubtotal_def appliedTaxes_def
    taxAt_def taxAmount_def modifiersPrice_def commit_def showNat.simps Let_def
    handleSubmitOrder_def rapid_handleSelectItem_def rapid_toOrderItem_def
    rapid_appendUpdate_def rapid_appliedTaxes_def example_rapid_def
    example_store_def example_order_def example_item_def example_menu_def
    example_pos_def example_taxes_def example_table_def example_round_def
    example_served_def example_opened_def
  have opened: "map (\<lambda>l. (ci_id l, ci_quantity l)) (cart example_opened) = [(''m1'', 1)]"
    by (simp add: defs)
  have pos: "map_option (\<lambda>ord. map (\<lambda>it. (menuItemId it, oi_quantity it, isCompleted it)) (items ord))
        (orders
           (handleSendToKitchen
              (example_opened\<lparr>cart := handleSelectItem 2000 (example_menu ! 1)
                                        (cart example_opened)\<rparr>)
              3000 ''n1'' example_served)
           ''o1'')
       = Some [(''m1'', 1, True), (''m1'', 1, False), (''m2'', 1, False)]"
    by (simp add: defs)
  have rapid: "map_option (\<lambda>ord. map (\<lambda>it. (menuItemId it, oi_quantity it, isCompleted it)) (items ord))
        (orders
           (handleSubmitOrder
              (example_rapid ''o1'' (rapid_handleSelectItem (example_menu ! 1) []))
              3000 ''n1'' example_served)
           ''o1'')
       = Some [(''m1'', 1, True), (''m2'', 1, False)]"
    by (simp add: defs)
  from opened pos rapid show ?thesis by blast
qed

section \<open>Cart merge\<close>

lemma findIndex_Some:
  "findIndex P xs = Some i \<Longrightarrow> i < length xs \<and> P (xs ! i)"
proof (induction xs arbitrary: i)
  case Nil
  then show ?case by simp
next
  case (Cons x xs)
  then show ?case by (cases "P x") (auto simp: nth_Cons')
qed

lemma findIndex_None: "findIndex P xs = None \<longleftrightarrow> (\<forall>x \<in> set xs. \<not> P x)"
  by (induction xs) auto

lemma findIndex_first:
  "\<forall>x \<in> set xs. \<not> P x \<Longrightarrow> P l \<Longrightarrow> findIndex P (xs @ l # ys) = Some (length xs)"
  by (induction xs) simp_all

text \<open>\<open>handleAddToCart\<close> merges on the cart item id and the note: a line with the id and
  the note of the added item takes its quantity, and no line is added; when no line has
  both, the item becomes a new last line.\<close>

lemma handleAddToCart_merge:
  assumes "cartItemId l = cartItemId item" and "ci_notes l = ci_notes item"
    and "\<forall>x \<in> set xs. \<not> (cartItemId x = cartItemId item \<and> ci_notes x = ci_notes item)"
  shows "handleAddToCart item (xs @ l # ys)
           = xs @ l\<lparr>ci_quantity := ci_quantity l + ci_quantity item\<rparr> # ys"
proof -
  have "findIndex (\<lambda>c. cartItemId c = cartItemId item \<and> ci_notes c = ci_notes item)
          (xs @ l # ys) = Some (length xs)"
    using assms by (simp add: findIndex_first)
  then show ?thesis
    by (simp add: handleAddToCart_def)
qed

lemma handleAddToCart_new_line:
  assumes "\<forall>x \<in> set xs. \<not> (cartItemId x = cartItemId item \<and> ci_notes x = ci_notes item)"
  shows "handleAddToCart item xs = xs @ [item]"
  using assms by (simp add: handleAddToCart_def findIndex_None [THEN iffD2])

text \<open>
  C5 (cart merge), at a concrete cart. In POSModal the menu item \<open>m1\<close>, which has no
  modifiers, is selected at time 1000 and again at time 1001, with no note: the cart has
  two lines of quantity 1 for it, because the cart item id carries the time of the
  selection. The same two selections in RapidOrderModal, where the cart item id is the
  menu item id, give one line of quantity 2.
\<close>

theorem pos_select_twice_two_lines:
  "map (\<lambda>l. (ci_id l, ci_selectedModifiers l, ci_notes l, ci_quantity l))
     (handleSelectItem 1001 (hd example_menu) (handleSelectItem 1000 (hd example_menu) []))
     = [(''m1'', [], None, 1), (''m1'', [], None, 1)]
   \<and> map (\<lambda>l. (ci_id l, ci_selectedModifiers l, ci_notes l, ci_quantity l))
       (rapid_handleSelectItem (hd example_menu) (rapid_handleSelectItem (hd example_menu) []))
     = [(''m1'', [], None, 2)]"
  by (simp add: handleSelectItem_def rapid_handleSelectItem_def handleAddToCart_def
        example_menu_def showNat.simps)

section \<open>Re-hydration of the cart\<close>

lemma rehydrateItem_lineOf:
  assumes inv: "\<forall>ci \<in> set c. \<exists>it \<in> S. lineOf menu ci it" and mem: "item \<in> S"
  shows "\<forall>ci \<in> set (rehydrateItem menu now c item). \<exists>it \<in> S. lineOf menu ci it"
proof (cases "findIndex (\<lambda>ci. cartItemId ci
                  = menuItemId item @ ''-'' @ modifiersString (oi_selectedModifiers item)
                \<and> ci_notes ci = oi_notes item) c")
  case None
  then show ?thesis
    using inv mem by (auto simp: rehydrateItem_def Let_def lineOf_def)
next
  case (Some i)
  then have lt: "i < length c" by (auto dest: findIndex_Some)
  then obtain it where it: "it \<in> S" "lineOf menu (c ! i) it"
    using inv by (meson nth_mem)
  have upd: "lineOf menu ((c ! i)\<lparr>ci_quantity := q\<rparr>) it" for q
    using it(2) by (simp add: lineOf_def)
  show ?thesis
  proof
    fix ci assume "ci \<in> set (rehydrateItem menu now c item)"
    then have "ci \<in> insert ((c ! i)\<lparr>ci_quantity := ci_quantity (c ! i) + oi_quantity item\<rparr>)
                      (set c)"
      using Some set_update_subset_insert [of c i] by (auto simp: rehydrateItem_def Let_def)
    then show "\<exists>it \<in> S. lineOf menu ci it"
      using inv it(1) upd by auto
  qed
qed

lemma foldl_rehydrateItem_lineOf:
  assumes "\<forall>ci \<in> set c. \<exists>it \<in> S. lineOf menu ci it" and "set its \<subseteq> S"
  shows "\<forall>ci \<in> set (foldl (rehydrateItem menu now) c its). \<exists>it \<in> S. lineOf menu ci it"
  using assms
proof (induction its arbitrary: c)
  case Nil
  then show ?case by simp
next
  case (Cons a its)
  have "\<forall>ci \<in> set (rehydrateItem menu now c a). \<exists>it \<in> S. lineOf menu ci it"
    using Cons.prems by (intro rehydrateItem_lineOf) auto
  then show ?case using Cons by simp
qed

lemma foldl_orders_lineOf:
  assumes "\<forall>ci \<in> set c. \<exists>it \<in> S. lineOf menu ci it"
    and "\<forall>ord \<in> set os. set (items ord) \<subseteq> S"
  shows "\<forall>ci \<in> set (foldl (\<lambda>combinedCart order.
                             foldl (rehydrateItem menu now) combinedCart (items order)) c os).
           \<exists>it \<in> S. lineOf menu ci it"
  using assms
proof (induction os arbitrary: c)
  case Nil
  then show ?case by simp
next
  case (Cons a os)
  have "\<forall>ci \<in> set (foldl (rehydrateItem menu now) c (items a)). \<exists>it \<in> S. lineOf menu ci it"
    using Cons.prems by (intro foldl_rehydrateItem_lineOf) auto
  then show ?case using Cons by simp
qed

text \<open>
  C6 (price snapshot), as the code has it. Every line of the re-hydrated cart comes from
  an item of one of the orders: its name and menu item id are the persisted ones, and
  its base price is the current price of that menu item in the live menu when the menu
  has the item at a price other than 0, and the persisted price of the item otherwise.
\<close>

theorem rehydrated_lines:
  "\<forall>ci \<in> set (rehydrate menu now os). \<exists>ord \<in> set os. \<exists>it \<in> set (items ord).
      ci_name ci = oi_name it \<and> ci_id ci = menuItemId it
      \<and> basePrice ci = (case find (\<lambda>mi. mi_id mi = menuItemId it) menu of
                          Some mi \<Rightarrow> if mi_price mi \<noteq> 0 then mi_price mi else price it
                        | None \<Rightarrow> price it)"
proof -
  have "\<forall>ci \<in> set (rehydrate menu now os).
          \<exists>it \<in> (\<Union>ord \<in> set os. set (items ord)). lineOf menu ci it"
    unfolding rehydrate_def by (rule foldl_orders_lineOf) auto
  then show ?thesis
    by (fastforce simp: lineOf_def rehydratedPrice_def)
qed

theorem rehydrated_lines_witness:
  "\<lparr>cartItemId = ''m1--1000'', ci_id = ''m1'', ci_name = ''Burger'', basePrice = 3,
      ci_quantity = 1, ci_selectedModifiers = [], ci_notes = Some []\<rparr>
     \<in> set (rehydrate example_menu_repriced 1000
              [example_order [example_item ''m1'' ''Burger'' 2 1 True] InProgress])
   \<and> (\<exists>ord \<in> set [example_order [example_item ''m1'' ''Burger'' 2 1 True] InProgress].
        \<exists>it \<in> set (items ord).
          ''Burger'' = oi_name it \<and> ''m1'' = menuItemId it
          \<and> 3 = (case find (\<lambda>mi. mi_id mi = menuItemId it) example_menu_repriced of
                   Some mi \<Rightarrow> if mi_price mi \<noteq> 0 then mi_price mi else price it
                 | None \<Rightarrow> price it))"
proof -
  note defs = rehydrate_def rehydrateItem_def rehydratedPrice_def modifiersString_def
    showNat.simps Let_def example_order_def example_item_def example_menu_def
    example_menu_repriced_def
  let ?ci = "\<lparr>cartItemId = ''m1--1000'', ci_id = ''m1'', ci_name = ''Burger'', basePrice = 3,
      ci_quantity = 1, ci_selectedModifiers = [], ci_notes = Some []\<rparr>"
  have mem: "?ci \<in> set (rehydrate example_menu_repriced 1000
              [example_order [example_item ''m1'' ''Burger'' 2 1 True] InProgress])"
    by (simp add: defs)
  from rehydrated_lines [of example_menu_repriced 1000
      "[example_order [example_item ''m1'' ''Burger'' 2 1 True] InProgress]"] mem
  have "\<exists>ord \<in> set [example_order [example_item ''m1'' ''Burger'' 2 1 True] InProgress].
        \<exists>it \<in> set (items ord).
          ci_name ?ci = oi_name it \<and> ci_id ?ci = menuItemId it
          \<and> basePrice ?ci = (case find (\<lambda>mi. mi_id mi = menuItemId it) example_menu_repriced of
                   Some mi \<Rightarrow> if mi_price mi \<noteq> 0 then mi_price mi else price it
                 | None \<Rightarrow> price it)"
    by blast
  with mem show ?thesis by simp
qed

text \<open>The claim C6 as stated fails: an order holds a burger persisted at the price 2; with
  the menu of that time the re-hydrated line has the base price 2, and after the menu
  price is raised to 3 the line re-hydrated from the same order has the base price 3.\<close>

theorem rehydrate_reprices_counterexample:
  "map price (items (example_order [example_item ''m1'' ''Burger'' 2 1 True] InProgress)) = [2]
   \<and> map basePrice (rehydrate example_menu 1000
        [example_order [example_item ''m1'' ''Burger'' 2 1 True] InProgress]) = [2]
   \<and> map basePrice (rehydrate example_menu_repriced 1000
        [example_order [example_item ''m1'' ''Burger'' 2 1 True] InProgress]) = [3]"
proof -
  note defs = rehydrate_def rehydrateItem_def rehydratedPrice_def modifiersString_def
    showNat.simps Let_def example_order_def example_item_def example_menu_def
    example_menu_repriced_def
  show ?thesis
    by (simp add: defs)
qed

section \<open>Floor status\<close>







lemma derivedStatus_cases:
  "derivedStatus tbl tos
      = (if tbl_status tbl = Some NeedsCleaning then NeedsCleaning
         else if list_ex (\<lambda>(oid, ord). status ord = Ready) tos then Attention
         else if list_ex (\<lambda>(oid, ord). status ord = New \<or> status ord = InProgress) tos
           then Ordered
         else if tbl_status tbl = Some Seated \<and> tos = [] then Seated
         else Available)"
  by (cases tos) (auto simp: derivedStatus_def Let_def list_ex_iff)


text \<open>Upper-casing twice is upper-casing once: a plate number and its upper-case form
  match the same labels.\<close>

lemma upperChar_upper: "\<forall>u \<in> set upperLetters. upperChar u = [u]"
  by (simp add: upperLetters_def upperChar_def lowerLetters_def)

lemma toUpperCase_upperChar: "toUpperCase (upperChar c) = upperChar c"
proof (cases "c = CHR 0xDF")
  case True
  then show ?thesis
    by (simp add: toUpperCase_def upperChar_def lowerLetters_def upperLetters_def)
next
  case False
  show ?thesis
  proof (cases "map_of (zip lowerLetters upperLetters) c")
    case None
    with False show ?thesis by (simp add: toUpperCase_def upperChar_def)
  next
    case (Some u)
    then have "u \<in> set upperLetters"
      by (auto dest!: map_of_SomeD set_zip_rightD)
    then have "upperChar u = [u]" using upperChar_upper by blast
    with False Some show ?thesis by (simp add: toUpperCase_def upperChar_def)
  qed
qed

lemma toUpperCase_idem: "toUpperCase (toUpperCase s) = toUpperCase s"
proof (induction s)
  case Nil
  show ?case by (simp add: toUpperCase_def)
next
  case (Cons c s)
  have app: "toUpperCase (a @ b) = toUpperCase a @ toUpperCase b" for a b
    by (simp add: toUpperCase_def)
  have "toUpperCase (c # s) = upperChar c @ toUpperCase s"
    by (simp add: toUpperCase_def)
  then show ?case
    using Cons.IH by (simp add: app toUpperCase_upperChar)
qed

lemma sameIgnoringCase_upper: "sameIgnoringCase (toUpperCase s) s"
  by (simp add: sameIgnoringCase_def toUpperCase_idem)



section \<open>The invariant of the total\<close>

lemma orderDiscounts_sum: "orderDiscounts ord = (\<Sum>d\<leftarrow>appliedDiscounts ord. discount_amount d)"
  by (simp add: orderDiscounts_def foldl_add_sum_list)

lemma created_order_invariant:
  "totalInvariant (newOrderData p now its s pm) \<and> totalInvariant (rapid_newOrderData r now its)"
  by (simp add: totalInvariant_def newOrderData_def rapid_newOrderData_def orderDiscounts_def
        total_def Let_def)

lemma finalized_order_invariant:
  "totalInvariant (doc\<lparr>status := Completed, o_paymentMethod := Some pm\<rparr>) = totalInvariant doc"
  by (simp add: totalInvariant_def orderDiscounts_def)

lemma appended_order_invariant:
  "totalInvariant (appendUpdate ids txs its ex ex) \<longleftrightarrow> platformFee ex = orderDiscounts ex"
  "totalInvariant (rapid_appendUpdate ids txs its ex ex) \<longleftrightarrow> platformFee ex = orderDiscounts ex"
  by (auto simp: totalInvariant_def appendUpdate_def rapid_appendUpdate_def orderDiscounts_def Let_def)

text \<open>
  C3 (invariant of the total), at a concrete order. The open order \<open>o1\<close> of table T1
  was placed with a platform fee of 0.500 and satisfies the invariant (total 2.500 for
  the subtotal 2.000). Fries at 1.000 are appended through RapidOrderModal: the order is
  written with subtotal 3.000, tax amount 0.150, tip 0, platform fee 0.500, no discount
  and total 3.150, so the invariant does not hold on the persisted order. The append
  through POSModal breaks it in the same way.
\<close>

theorem append_drops_platform_fee:
  "totalInvariant example_customer_order
   \<and> map_option (\<lambda>ord. (o_subtotal ord, o_taxAmount ord, tip ord, platformFee ord,
                         orderDiscounts ord, o_total ord))
       (orders (handleSubmitOrder
                  (example_rapid ''o1'' (rapid_handleSelectItem (example_menu ! 1) []))
                  3000 ''n1'' (example_store [''o1'' \<mapsto> example_customer_order])) ''o1'')
     = Some (3, 3 / 20, 0, 1 / 2, 0, 63 / 20)
   \<and> map_option totalInvariant
       (orders (handleSubmitOrder
                  (example_rapid ''o1'' (rapid_handleSelectItem (example_menu ! 1) []))
                  3000 ''n1'' (example_store [''o1'' \<mapsto> example_customer_order])) ''o1'')
     = Some False
   \<and> map_option totalInvariant
       (orders (handleSendToKitchen
                  ((example_paying 1000 (example_store [''o1'' \<mapsto> example_customer_order]))
                     \<lparr>cart := handleSelectItem 2000 (example_menu ! 1)
                        (cart (example_paying 1000
                                 (example_store [''o1'' \<mapsto> example_customer_order])))\<rparr>)
                  3000 ''n1'' (example_store [''o1'' \<mapsto> example_customer_order])) ''o1'')
     = Some False"
proof -
  note defs = handleSendToKitchen_def rehydrationEffect_def rehydrate_def rehydrateItem_def
    rehydratedPrice_def queryOrders_def modifiersString_def handleSelectItem_def
    handleAddToCart_def toOrderItem_def appendUpdate_def itemsSubtotal_def appliedTaxes_def
    taxAt_def taxAmount_def modifiersPrice_def commit_def showNat.simps Let_def
    handleSubmitOrder_def rapid_handleSelectItem_def rapid_toOrderItem_def
    rapid_appendUpdate_def rapid_appliedTaxes_def example_rapid_def
    example_store_def example_order_def example_item_def example_menu_def
    example_pos_def example_taxes_def example_table_def example_round_def
    example_customer_order_def example_paying_def orderDiscounts_def totalInvariant_def
  have a: "totalInvariant example_customer_order"
    by (simp add: defs)
  have b: "map_option (\<lambda>ord. (o_subtotal ord, o_taxAmount ord, tip ord, platformFee ord,
                         orderDiscounts ord, o_total ord))
       (orders (handleSubmitOrder
                  (example_rapid ''o1'' (rapid_handleSelectItem (example_menu ! 1) []))
                  3000 ''n1'' (example_store [''o1'' \<mapsto> example_customer_order])) ''o1'')
     = Some (3, 3 / 20, 0, 1 / 2, 0, 63 / 20)"
    by (simp add: defs)
  have c: "map_option totalInvariant
       (orders (handleSubmitOrder
                  (example_rapid ''o1'' (rapid_handleSelectItem (example_menu ! 1) []))
                  3000 ''n1'' (example_store [''o1'' \<mapsto> example_customer_order])) ''o1'')
     = Some False"
    by (simp add: defs)
  have d: "map_option totalInvariant
       (orders (handleSendToKitchen
                  ((example_paying 1000 (example_store [''o1'' \<mapsto> example_customer_order]))
                     \<lparr>cart := handleSelectItem 2000 (example_menu ! 1)
                        (cart (example_paying 1000
                                 (example_store [''o1'' \<mapsto> example_customer_order])))\<rparr>)
                  3000 ''n1'' (example_store [''o1'' \<mapsto> example_customer_order])) ''o1'')
     = Some False"
    by (simp add: defs)
  from a b c d show ?thesis by blast
qed

section \<open>Inventory deduction\<close>

lemma getOr0_addDeduction:
  "getOr0 (addDeduction q d r) ing
     = getOr0 d ing + (if ingredientId r = ing then ri_quantity r * q else 0)"
  by (simp add: getOr0_def addDeduction_def update_conv')

lemma getOr0_foldl_addDeduction:
  "getOr0 (foldl (addDeduction q) d rs) ing
     = getOr0 d ing + (\<Sum>r\<leftarrow>rs. if ingredientId r = ing then ri_quantity r * q else 0)"
  by (induction rs arbitrary: d) (simp_all add: getOr0_addDeduction)

lemma getOr0_foldl_items:
  "getOr0 (foldl (\<lambda>deductions orderItem.
              foldl (addDeduction (oi_quantity orderItem)) deductions (recipeOf menu orderItem))
            d its) ing
     = getOr0 d ing + required menu its ing"
  by (induction its arbitrary: d) (simp_all add: required_def getOr0_foldl_addDeduction)

lemma deductions_batched:
  "getOr0 (deductionsOf menu its) ing = required menu its ing"
  by (simp add: deductionsOf_def getOr0_foldl_items) (simp add: getOr0_def)

lemma distinct_foldl_addDeduction:
  "distinct (map fst d) \<Longrightarrow> distinct (map fst (foldl (addDeduction q) d rs))"
  by (induction rs arbitrary: d) (simp_all add: addDeduction_def distinct_update)

lemma distinct_deductions: "distinct (map fst (deductionsOf menu its))"
proof -
  have "distinct (map fst d) \<Longrightarrow>
        distinct (map fst (foldl (\<lambda>deductions orderItem.
              foldl (addDeduction (oi_quantity orderItem)) deductions (recipeOf menu orderItem))
            d its))" for d
    by (induction its arbitrary: d) (simp_all add: distinct_foldl_addDeduction)
  then show ?thesis by (simp add: deductionsOf_def)
qed

text \<open>
  C1 (inventory deduction), at a concrete table. The order \<open>o1\<close> of table T1 holds two
  burgers (2 units of X each) and one portion of fries (3 units of X); the stock of X is
  100. A terminal opens the table and finalizes by card: the stock of X is 93, the order
  is Completed, and its persisted items carry no \<open>inventoryDeducted\<close> flag. A terminal
  that opens the same order again and finalizes it a second time brings the stock of X
  to 86.
\<close>

theorem second_finalization_deducts_again:
  "stock example_ordered ''X'' = Some 100
   \<and> map (\<lambda>l. (ci_id l, ci_quantity l)) (cart (example_paying 1000 example_ordered))
       = [(''m1'', 2), (''m2'', 1)]
   \<and> stock (clickFinalize (example_paying 1000 example_ordered) 2000 ''n1'' example_ordered) ''X''
       = Some 93
   \<and> map_option (\<lambda>ord. (status ord, map inventoryDeducted (items ord)))
       (orders (clickFinalize (example_paying 1000 example_ordered) 2000 ''n1'' example_ordered)
          ''o1'')
       = Some (Completed, [None, None])
   \<and> stock (clickFinalize
              (example_paying 3000
                 (clickFinalize (example_paying 1000 example_ordered) 2000 ''n1'' example_ordered))
              4000 ''n2''
              (clickFinalize (example_paying 1000 example_ordered) 2000 ''n1'' example_ordered))
        ''X''
       = Some 86"
proof -
  note defs = handleSendToKitchen_def rehydrationEffect_def rehydrate_def rehydrateItem_def
    rehydratedPrice_def queryOrders_def modifiersString_def handleSelectItem_def
    handleAddToCart_def toOrderItem_def appendUpdate_def itemsSubtotal_def appliedTaxes_def
    taxAt_def taxAmount_def modifiersPrice_def commit_def showNat.simps Let_def
    handleFinalizeOrder_def clickFinalize_def finalizeDisabled_def toFinalItem_def
    deductionsOf_def recipeOf_def addDeduction_def getOr0_def markTable_def
    example_store_def example_order_def example_item_def example_menu_def
    example_pos_def example_taxes_def example_table_def example_round_def
    example_ordered_def example_paying_def
  show ?thesis
    by (simp add: defs)
qed

section \<open>Kitchen completion\<close>

lemma length_markDone [simp]: "length (markDone its i) = length its"
  by (simp add: markDone_def)

lemma markDone_all_done:
  "list_all isCompleted its \<Longrightarrow> list_all isCompleted (markDone its i)"
proof -
  assume a: "list_all isCompleted its"
  have "set (markDone its i) \<subseteq> insert ((its ! i)\<lparr>isCompleted := True\<rparr>) (set its)"
    unfolding markDone_def by (rule set_update_subset_insert)
  with a show ?thesis by (auto simp: list_all_iff)
qed

lemma newStatus_absorb:
  "newStatus (newStatus s its) (markDone its i) = newStatus s (markDone its i)"
  using markDone_all_done [of its i] by (auto simp: newStatus_def)

lemma handleCompleteIndividual_Some:
  "ords oid = Some ord \<Longrightarrow> idx < length (items ord) \<Longrightarrow>
     handleCompleteIndividual ords oid idx = Inr (ords(oid \<mapsto> completeItem ord idx))"
  by (simp add: handleCompleteIndividual_def completeItem_def Let_def)

lemma handleCompleteIndividual_out_of_range:
  "ords oid = Some ord \<Longrightarrow> \<not> idx < length (items ord) \<Longrightarrow>
     handleCompleteIndividual ords oid idx = Inl TypeError"
  by (simp add: handleCompleteIndividual_def)

lemma handleCompleteIndividual_None:
  "ords oid = None \<Longrightarrow> handleCompleteIndividual ords oid idx = Inr ords"
  by (simp add: handleCompleteIndividual_def)

lemma length_items_completeItem [simp]: "length (items (completeItem ord i)) = length (items ord)"
  by (simp add: completeItem_def)

lemma foldl_completeItem_snoc_form:
  "idxs \<noteq> [] \<Longrightarrow>
     foldl completeItem ord idxs
       = ord\<lparr>items := foldl markDone (items ord) idxs,
             status := newStatus (status ord) (foldl markDone (items ord) idxs)\<rparr>"
proof (induction idxs rule: rev_induct)
  case Nil
  then show ?case by simp
next
  case (snoc i idxs)
  show ?case
  proof (cases "idxs = []")
    case True
    then show ?thesis by (simp add: completeItem_def)
  next
    case False
    with snoc.IH show ?thesis
      by (simp add: completeItem_def newStatus_absorb)
  qed
qed

lemma inRange_Cons:
  "inRange ords (x # xs) \<longleftrightarrow>
     (case ords (orderId x) of None \<Rightarrow> True | Some ord \<Rightarrow> itemIndex x < length (items ord))
     \<and> inRange ords xs"
  by (simp add: inRange_def)

lemma inRange_cong_length:
  assumes "\<And>k. (case ords' k of None \<Rightarrow> ords k = None
                 | Some o' \<Rightarrow> (\<exists>ord. ords k = Some ord \<and> length (items o') = length (items ord)))"
  shows "inRange ords' xs = inRange ords xs"
proof -
  have "(case ords' k of None \<Rightarrow> True | Some o' \<Rightarrow> n < length (items o'))
          = (case ords k of None \<Rightarrow> True | Some ord \<Rightarrow> n < length (items ord))" for k n
    using assms [of k] by (auto split: option.splits)
  then show ?thesis by (simp add: inRange_def)
qed

lemma completeEach_char:
  "completeEach ords occs
     = (if inRange ords occs
        then Inr (\<lambda>k. map_option (\<lambda>ord. foldl completeItem ord (indicesIn k occs)) (ords k))
        else Inl TypeError)"
proof (induction occs arbitrary: ords)
  case Nil
  show ?case by (simp add: inRange_def indicesIn_def fun_eq_iff option.map_ident)
next
  case (Cons x xs)
  show ?case
  proof (cases "ords (orderId x)")
    case None
    have "(\<lambda>k. map_option (\<lambda>ord. foldl completeItem ord (indicesIn k (x # xs))) (ords k))
            = (\<lambda>k. map_option (\<lambda>ord. foldl completeItem ord (indicesIn k xs)) (ords k))"
      using None by (auto simp: fun_eq_iff indicesIn_def)
    with None show ?thesis
      by (simp add: handleCompleteIndividual_None Cons.IH inRange_Cons)
  next
    case (Some ord)
    show ?thesis
    proof (cases "itemIndex x < length (items ord)")
      case False
      with Some show ?thesis
        by (simp add: handleCompleteIndividual_out_of_range inRange_Cons)
    next
      case True
      let ?ords' = "ords(orderId x \<mapsto> completeItem ord (itemIndex x))"
      have r: "inRange ?ords' xs = inRange ords xs"
        by (rule inRange_cong_length) (use Some in \<open>auto split: option.splits\<close>)
      have f: "(\<lambda>k. map_option (\<lambda>ord. foldl completeItem ord (indicesIn k xs)) (?ords' k))
            = (\<lambda>k. map_option (\<lambda>ord. foldl completeItem ord (indicesIn k (x # xs))) (ords k))"
        using Some by (auto simp: fun_eq_iff indicesIn_def)
      have "completeEach ords (x # xs) = completeEach ?ords' xs"
        using Some True by (simp add: handleCompleteIndividual_Some)
      also have "\<dots> = (if inRange ?ords' xs
            then Inr (\<lambda>k. map_option (\<lambda>ord. foldl completeItem ord (indicesIn k xs)) (?ords' k))
            else Inl TypeError)"
        by (rule Cons.IH)
      also have "\<dots> = (if inRange ords xs
            then Inr (\<lambda>k. map_option (\<lambda>ord. foldl completeItem ord (indicesIn k (x # xs))) (ords k))
            else Inl TypeError)"
        by (simp only: r f)
      also have "\<dots> = (if inRange ords (x # xs)
            then Inr (\<lambda>k. map_option (\<lambda>ord. foldl completeItem ord (indicesIn k (x # xs))) (ords k))
            else Inl TypeError)"
        using Some True by (simp add: inRange_Cons)
      finally show ?thesis .
    qed
  qed
qed

lemma markAll_char:
  "markAll docs occs
     = (if inRange docs occs
        then Inr (\<lambda>k. map_option
                        (\<lambda>ord. ord\<lparr>items := foldl markDone (items ord) (indicesIn k occs)\<rparr>) (docs k))
        else Inl TypeError)"
proof (induction occs arbitrary: docs)
  case Nil
  show ?case by (simp add: inRange_def indicesIn_def fun_eq_iff option.map_ident)
next
  case (Cons x xs)
  show ?case
  proof (cases "docs (orderId x)")
    case None
    have "(\<lambda>k. map_option (\<lambda>ord. ord\<lparr>items := foldl markDone (items ord) (indicesIn k (x # xs))\<rparr>) (docs k))
            = (\<lambda>k. map_option (\<lambda>ord. ord\<lparr>items := foldl markDone (items ord) (indicesIn k xs)\<rparr>) (docs k))"
      using None by (auto simp: fun_eq_iff indicesIn_def)
    with None show ?thesis
      by (simp add: Cons.IH inRange_Cons)
  next
    case (Some ord)
    show ?thesis
    proof (cases "itemIndex x < length (items ord)")
      case False
      with Some show ?thesis
        by (simp add: inRange_Cons)
    next
      case True
      let ?docs' = "docs(orderId x \<mapsto> ord\<lparr>items := markDone (items ord) (itemIndex x)\<rparr>)"
      have r: "inRange ?docs' xs = inRange docs xs"
        by (rule inRange_cong_length) (use Some in \<open>auto split: option.splits\<close>)
      have f: "(\<lambda>k. map_option (\<lambda>ord. ord\<lparr>items := foldl markDone (items ord) (indicesIn k xs)\<rparr>) (?docs' k))
            = (\<lambda>k. map_option (\<lambda>ord. ord\<lparr>items := foldl markDone (items ord) (indicesIn k (x # xs))\<rparr>) (docs k))"
        using Some by (auto simp: fun_eq_iff indicesIn_def)
      have "markAll docs (x # xs) = markAll ?docs' xs"
        using Some True by simp
      also have "\<dots> = (if inRange ?docs' xs
            then Inr (\<lambda>k. map_option
                   (\<lambda>ord. ord\<lparr>items := foldl markDone (items ord) (indicesIn k xs)\<rparr>) (?docs' k))
            else Inl TypeError)"
        by (rule Cons.IH)
      also have "\<dots> = (if inRange docs xs
            then Inr (\<lambda>k. map_option
                   (\<lambda>ord. ord\<lparr>items := foldl markDone (items ord) (indicesIn k (x # xs))\<rparr>) (docs k))
            else Inl TypeError)"
        by (simp only: r f)
      also have "\<dots> = (if inRange docs (x # xs)
            then Inr (\<lambda>k. map_option
                   (\<lambda>ord. ord\<lparr>items := foldl markDone (items ord) (indicesIn k (x # xs))\<rparr>) (docs k))
            else Inl TypeError)"
        using Some True by (simp add: inRange_Cons)
      finally show ?thesis .
    qed
  qed
qed


lemma foldl_batch_writes:
  assumes "distinct ids"
  shows "foldl (\<lambda>st oid.
                  case marked oid of
                    None \<Rightarrow> st
                  | Some orderData \<Rightarrow>
                      (case st oid of
                         None \<Rightarrow> st
                       | Some doc \<Rightarrow>
                           st(oid \<mapsto> doc\<lparr>items := items orderData,
                                 status := newStatus (status orderData) (items orderData)\<rparr>)))
           st ids
         = (\<lambda>k. if k \<in> set ids then
                   (case marked k of
                      None \<Rightarrow> st k
                    | Some orderData \<Rightarrow>
                        map_option (\<lambda>doc. doc\<lparr>items := items orderData,
                                      status := newStatus (status orderData) (items orderData)\<rparr>)
                          (st k))
                 else st k)"
  using assms
proof (induction ids arbitrary: st)
  case Nil
  show ?case by simp
next
  case (Cons a ids)
  then have d: "distinct ids" and na: "a \<notin> set ids" by simp_all
  show ?case
    by (simp add: Cons.IH [OF d]) (use na in \<open>auto simp: fun_eq_iff split: option.splits\<close>)
qed

lemma inRange_restrict:
  "set (map orderId occs) \<subseteq> A \<Longrightarrow> inRange (ords |` A) occs = inRange ords occs"
  by (induction occs) (simp_all add: inRange_def)

lemma indicesIn_Nil_iff: "indicesIn k occs = [] \<longleftrightarrow> k \<notin> set (map orderId occs)"
  by (induction occs) (auto simp: indicesIn_def)

lemma handleBumpAll_char:
  "handleBumpAll ords occs
     = (if inRange ords occs
        then Inr (\<lambda>k. map_option (\<lambda>ord. foldl completeItem ord (indicesIn k occs)) (ords k))
        else Inl TypeError)"
proof (cases "inRange ords occs")
  case False
  then show ?thesis
    by (simp add: handleBumpAll_def Let_def markAll_char inRange_restrict)
next
  case True
  let ?A = "set (map orderId occs)"
  let ?marked = "\<lambda>k. map_option
                        (\<lambda>ord. ord\<lparr>items := foldl markDone (items ord) (indicesIn k occs)\<rparr>)
                        ((ords |` ?A) k)"
  have m: "markAll (ords |` ?A) occs = Inr ?marked"
    using True by (simp add: markAll_char inRange_restrict)
  have w: "foldl (\<lambda>st oid.
                  case ?marked oid of
                    None \<Rightarrow> st
                  | Some orderData \<Rightarrow>
                      (case st oid of
                         None \<Rightarrow> st
                       | Some doc \<Rightarrow>
                           st(oid \<mapsto> doc\<lparr>items := items orderData,
                                 status := newStatus (status orderData) (items orderData)\<rparr>)))
           ords (remdups (map orderId occs))
        = (\<lambda>k. map_option (\<lambda>ord. foldl completeItem ord (indicesIn k occs)) (ords k))"
  proof -
    have "(if k \<in> ?A then
             (case ?marked k of
                None \<Rightarrow> ords k
              | Some orderData \<Rightarrow>
                  map_option (\<lambda>doc. doc\<lparr>items := items orderData,
                                status := newStatus (status orderData) (items orderData)\<rparr>)
                    (ords k))
           else ords k)
          = map_option (\<lambda>ord. foldl completeItem ord (indicesIn k occs)) (ords k)" for k
    proof (cases "k \<in> ?A")
      case True
      then have "indicesIn k occs \<noteq> []" by (simp add: indicesIn_Nil_iff)
      then show ?thesis
        using True by (cases "ords k") (simp_all add: foldl_completeItem_snoc_form)
    next
      case False
      then have "indicesIn k occs = []" by (simp add: indicesIn_Nil_iff)
      then show ?thesis
        using False by (cases "ords k") simp_all
    qed
    then show ?thesis
      by (subst foldl_batch_writes) (simp_all add: fun_eq_iff)
  qed
  have "handleBumpAll ords occs
          = Inr (\<lambda>k. map_option (\<lambda>ord. foldl completeItem ord (indicesIn k occs)) (ords k))"
    unfolding handleBumpAll_def Let_def set_remdups m by (simp only: sum.case w)
  with True show ?thesis by (simp only: if_True)
qed

text \<open>
  C7 (kitchen completion). Marking the occurrence \<open>idx\<close> of an order done sets the
  \<open>isCompleted\<close> flag of that item and writes the status Ready if all items of the order
  are now completed, else In Progress if the status was New, else the status as it was.
  Bumping a whole group gives exactly the result of marking its occurrences done one
  after the other, over all the orders of the group; and it returns a result whenever
  every occurrence points at an existing line of its order.
\<close>

theorem kitchen_completion:
  "(ords oid = Some ord \<and> idx < length (items ord) \<longrightarrow>
      handleCompleteIndividual ords oid idx
        = Inr (ords(oid \<mapsto> ord\<lparr>items := (items ord)[idx := (items ord ! idx)\<lparr>isCompleted := True\<rparr>],
                 status := (if list_all isCompleted
                                 ((items ord)[idx := (items ord ! idx)\<lparr>isCompleted := True\<rparr>])
                            then Ready
                            else if status ord = New then InProgress else status ord)\<rparr>)))
   \<and> handleBumpAll ords occs = completeEach ords occs
   \<and> (inRange ords occs \<longrightarrow> (\<exists>ords'. handleBumpAll ords occs = Inr ords'))"
  by (simp add: handleBumpAll_char completeEach_char handleCompleteIndividual_def Let_def
        markDone_def newStatus_def)

theorem kitchen_completion_witness:
  "example_kitchen ''o1'' = Some (example_order example_round New)
   \<and> 1 < length (items (example_order example_round New))
   \<and> inRange example_kitchen example_group
   \<and> (case handleCompleteIndividual example_kitchen ''o1'' 1 of
         Inl e \<Rightarrow> False
       | Inr ords' \<Rightarrow>
           map_option (\<lambda>ord. (status ord, map isCompleted (items ord))) (ords' ''o1'')
             = Some (InProgress, [False, True]))
   \<and> (case completeEach example_kitchen example_group of
         Inl e \<Rightarrow> False
       | Inr ords' \<Rightarrow>
           map_option (\<lambda>ord. (status ord, map isCompleted (items ord))) (ords' ''o1'')
             = Some (InProgress, [False, True])
           \<and> map_option (\<lambda>ord. (status ord, map isCompleted (items ord))) (ords' ''o2'')
             = Some (Ready, [True]))
   \<and> handleBumpAll example_kitchen example_group = completeEach example_kitchen example_group"
proof -
  note defs = example_kitchen_def example_group_def example_order_def example_round_def
    example_item_def
  have h1: "example_kitchen ''o1'' = Some (example_order example_round New)
            \<and> 1 < length (items (example_order example_round New))"
    by (simp add: defs)
  have h2: "inRange example_kitchen example_group"
    by (simp add: inRange_def defs)
  note inst = kitchen_completion [of example_kitchen "''o1''" "example_order example_round New" 1
      example_group]
  from inst have eq: "handleBumpAll example_kitchen example_group
                        = completeEach example_kitchen example_group"
    by blast
  from inst h1 have one: "handleCompleteIndividual example_kitchen ''o1'' 1
        = Inr (example_kitchen(''o1'' \<mapsto> (example_order example_round New)
            \<lparr>items := (items (example_order example_round New))
                 [1 := (items (example_order example_round New) ! 1)\<lparr>isCompleted := True\<rparr>],
             status := (if list_all isCompleted
                   ((items (example_order example_round New))
                      [1 := (items (example_order example_round New) ! 1)\<lparr>isCompleted := True\<rparr>])
                 then Ready
                 else if status (example_order example_round New) = New then InProgress
                      else status (example_order example_round New))\<rparr>))"
    by blast
  have c1: "(case handleCompleteIndividual example_kitchen ''o1'' 1 of
         Inl e \<Rightarrow> False
       | Inr ords' \<Rightarrow>
           map_option (\<lambda>ord. (status ord, map isCompleted (items ord))) (ords' ''o1'')
             = Some (InProgress, [False, True]))"
    unfolding one by (simp add: defs)
  have c2: "(case completeEach example_kitchen example_group of
         Inl e \<Rightarrow> False
       | Inr ords' \<Rightarrow>
           map_option (\<lambda>ord. (status ord, map isCompleted (items ord))) (ords' ''o1'')
             = Some (InProgress, [False, True])
           \<and> map_option (\<lambda>ord. (status ord, map isCompleted (items ord))) (ords' ''o2'')
             = Some (Ready, [True]))"
    by (simp add: defs handleCompleteIndividual_def markDone_def newStatus_def Let_def)
  from h1 h2 c1 c2 eq show ?thesis by blast
qed

end
